theory Spec2Isabelle
  imports Complex_Main "HOL-Library.Sublist"
begin

section \<open>Python values, exceptions and string primitives\<close>

text \<open>
  The classifiers of \<^verbatim>\<open>aimm_ingest.py\<close> are pure functions of one string. A Python
  \<^verbatim>\<open>str\<close> is modelled as a \<^typ>\<open>string\<close>, its characters read as the code points
  0 to 255; every token the source compares against is ASCII. An exception is a value
  of \<open>py_error\<close>: \<^verbatim>\<open>KeyError\<close> carries its argument (the formatted message, or the
  missing key of a dict lookup), \<^verbatim>\<open>TypeError\<close> is what subscripting \<^verbatim>\<open>None\<close> raises,
  \<^verbatim>\<open>IndexError\<close> what \<^verbatim>\<open>[][0]\<close> raises.
\<close>

datatype py_error = KeyError string | TypeError | IndexError

text \<open>
  The values stored in a charge dict: an \<^verbatim>\<open>int\<close>, a \<^verbatim>\<open>float\<close> literal (denoted by
  the decimal number the literal is written as) or a \<^verbatim>\<open>str\<close>. A dict is the list of its
  items in insertion order; all dicts of the source are built with distinct keys.
\<close>

datatype pyval = PInt int | PFloat real | PStr string

type_synonym dict = "(string \<times> pyval) list"

text \<open>\<^verbatim>\<open>sub in s\<close> on strings: \<open>sub\<close> occurs in \<open>s\<close> as a contiguous block.\<close>

fun contains :: "string \<Rightarrow> string \<Rightarrow> bool" where
  "contains sub [] = (sub = [])"
| "contains sub (c # cs) = (prefix sub (c # cs) \<or> contains sub cs)"

text \<open>
  \<^verbatim>\<open>\d\<close> of the \<^verbatim>\<open>re\<close> module on a \<^verbatim>\<open>str\<close> pattern matches a decimal digit; among the
  characters of \<^typ>\<open>char\<close> these are \<open>0\<close> to \<open>9\<close>.
\<close>

definition isdigit :: "char \<Rightarrow> bool" where
  "isdigit c = (c \<in> set ''0123456789'')"

text \<open>
  An attempt to match \<^verbatim>\<open>(\d*)V\<close> at the start of \<open>s\<close>: the greedy \<^verbatim>\<open>\d*\<close> takes the
  longest run of digits; giving digits back cannot help, since the character after a
  shorter run is a digit and not \<open>V\<close>. The result is group 0, the matched text.
\<close>

definition match_dV :: "string \<Rightarrow> string option" where
  "match_dV s =
     (case dropWhile isdigit s of
        [] \<Rightarrow> None
      | c # _ \<Rightarrow> if c = CHR ''V'' then Some (takeWhile isdigit s @ ''V'') else None)"

text \<open>\<^verbatim>\<open>re.search("(\d*)V", name)\<close>: the match at the leftmost start position that has one.\<close>

fun re_search_dV :: "string \<Rightarrow> string option" where
  "re_search_dV [] = match_dV []"
| "re_search_dV (c # cs) =
     (case match_dV (c # cs) of Some m \<Rightarrow> Some m | None \<Rightarrow> re_search_dV cs)"

text \<open>\<^verbatim>\<open>dict(zip(keys, charge))\<close> with \<^verbatim>\<open>keys = ["cycle", "voltage", "state"]\<close>.\<close>

definition charge_dict :: "int \<times> real \<times> string \<Rightarrow> dict" where
  "charge_dict t =
     (case t of (cycle, voltage, state) \<Rightarrow>
        zip [''cycle'', ''voltage'', ''state''] [PInt cycle, PFloat voltage, PStr state])"

text \<open>
  \<^verbatim>\<open>if charge: charge = dict(zip(keys, charge))\<close>: \<^verbatim>\<open>None\<close> is falsy and stays, a
  3-tuple is truthy and becomes a dict.
\<close>

definition finish_charge :: "(int \<times> real \<times> string) option \<Rightarrow> dict option" where
  "finish_charge charge = (case charge of None \<Rightarrow> None | Some t \<Rightarrow> Some (charge_dict t))"

section \<open>The cycle chain shared by the charge-resolving variants\<close>

text \<open>
  The chain \<^verbatim>\<open>if "1st" in name: cycle = 1 elif "2nd" in name: cycle = 2 elif "10th" in
  name: cycle = 10\<close> appears verbatim in \<^verbatim>\<open>parse_filename\<close>, \<^verbatim>\<open>parse_filename_nslsii\<close>
  and both per-column loops; only the \<^verbatim>\<open>else\<close> branch differs. \<open>None\<close> stands for
  reaching that \<^verbatim>\<open>else\<close>.
\<close>

definition cycle_marker :: "string \<Rightarrow> int option" where
  "cycle_marker name =
     (if contains ''1st'' name then Some 1
      else if contains ''2nd'' name then Some 2
      else if contains ''10th'' name then Some 10
      else None)"

section \<open>\<^verbatim>\<open>parse_filename\<close> (Wanli's data)\<close>

definition parse_filename_sample :: "string \<Rightarrow> py_error + string" where
  "parse_filename_sample name =
     (if contains ''622'' name then Inr ''BM_NCM622''
      else if contains ''NCMA'' name then Inr ''BM_NCMA''
      else if contains ''712_Al_free'' name then Inr ''BM_NCM712''
      else if contains ''712'' name then Inr ''BM_NCM712-Al''
      else if contains ''811'' name then Inr ''BM_NCM811''
      else Inl (KeyError (''unable to parse sample from '' @ name)))"

definition parse_filename_voltage :: "string \<Rightarrow> py_error + (real \<times> string)" where
  "parse_filename_voltage name =
     (case re_search_dV name of
        None \<Rightarrow> Inl TypeError
      | Some voltage_str \<Rightarrow>
          if voltage_str = ''43V'' then Inr (4.3, ''C'')
          else if voltage_str = ''48V'' then Inr (4.8, ''C'')
          else if voltage_str = ''3V'' then Inr (3.0, ''DC'')
          else Inl (KeyError (''unable to parse voltage from '' @ voltage_str)))"

definition parse_filename_charge ::
  "string \<Rightarrow> string \<Rightarrow> py_error + (int \<times> real \<times> string) option" where
  "parse_filename_charge sample name =
     (if sample = ''Ni_metal'' then Inr None
      else if contains ''Pristine'' name then Inr (Some (0, 0.0, ''DC''))
      else
        (case cycle_marker name of
           None \<Rightarrow> Inl (KeyError (''unable to parse cycle from '' @ name))
         | Some cycle \<Rightarrow>
             (case parse_filename_voltage name of
                Inl e \<Rightarrow> Inl e
              | Inr (voltage, state) \<Rightarrow> Inr (Some (cycle, voltage, state)))))"

definition parse_filename :: "string \<Rightarrow> py_error + (string \<times> dict option)" where
  "parse_filename name =
     (case parse_filename_sample name of
        Inl e \<Rightarrow> Inl e
      | Inr sample \<Rightarrow>
          (case parse_filename_charge sample name of
             Inl e \<Rightarrow> Inl e
           | Inr charge \<Rightarrow> Inr (sample, finish_charge charge)))"

section \<open>\<^verbatim>\<open>parse_filename_gihyeok\<close> (Gihyeok's data)\<close>

definition parse_filename_gihyeok_sample :: "string \<Rightarrow> py_error + string" where
  "parse_filename_gihyeok_sample name =
     (if contains ''622'' name then Inr ''BM_NCM622''
      else if contains ''NCMA'' name then Inr ''BM_NCMA''
      else if contains ''712_Al-doped'' name then Inr ''BM_NCM712-Al''
      else if contains ''712'' name then Inr ''BM_NCM712''
      else if contains ''811'' name then Inr ''BM_NCM811''
      else Inl (KeyError (''unable to parse sample from '' @ name)))"

definition parse_filename_gihyeok_symbol :: "string \<Rightarrow> py_error + string" where
  "parse_filename_gihyeok_symbol name =
     (if contains ''Co'' name then Inr ''Co''
      else if contains ''Mn'' name then Inr ''Mn''
      else if contains ''Ni'' name then Inr ''Ni''
      else if contains ''O'' name then Inr ''O''
      else Inl (KeyError (''unable to parse symbol from '' @ name)))"

definition parse_filename_gihyeok :: "string \<Rightarrow> py_error + (string \<times> string)" where
  "parse_filename_gihyeok name =
     (case parse_filename_gihyeok_sample name of
        Inl e \<Rightarrow> Inl e
      | Inr sample \<Rightarrow>
          (case parse_filename_gihyeok_symbol name of
             Inl e \<Rightarrow> Inl e
           | Inr symbol \<Rightarrow> Inr (sample, symbol)))"

section \<open>\<^verbatim>\<open>parse_filename_nslsii\<close> (Eli's first batch)\<close>

definition parse_filename_nslsii_sample :: "string \<Rightarrow> py_error + string" where
  "parse_filename_nslsii_sample name =
     (if contains ''622'' name then Inr ''BM_NCM622''
      else if contains ''NCMA'' name \<or> contains ''NMCA'' name then Inr ''BM_NCMA''
      else if contains ''712'' name \<or> contains ''721'' name then Inr ''BM_NCM712-Al''
      else if contains ''811'' name then Inr ''BM_NCM811''
      else Inl (KeyError (''unable to parse sample from '' @ name)))"

definition parse_filename_nslsii_voltage :: "string \<Rightarrow> py_error + (real \<times> string)" where
  "parse_filename_nslsii_voltage name =
     (if contains ''4_3'' name \<or> contains ''43C'' name then Inr (4.3, ''C'')
      else if contains ''4_8'' name \<or> contains ''48C'' name then Inr (4.8, ''C'')
      else if contains ''3V'' name \<or> contains ''3_0'' name \<or> contains ''30DC'' name
        then Inr (3.0, ''DC'')
      else Inl (KeyError (''unable to parse voltage from '' @ name)))"

text \<open>
  The \<^verbatim>\<open>else\<close> of the cycle chain assigns \<^verbatim>\<open>cycle = 1\<close> here; the \<^verbatim>\<open>raise\<close> is
  commented out in the source.
\<close>

definition parse_filename_nslsii_charge ::
  "string \<Rightarrow> py_error + (int \<times> real \<times> string) option" where
  "parse_filename_nslsii_charge name =
     (if contains ''pristine'' name \<or> contains ''Pristine'' name
        then Inr (Some (0, 0.0, ''DC''))
      else
        (let cycle = (case cycle_marker name of None \<Rightarrow> 1 | Some n \<Rightarrow> n)
         in case parse_filename_nslsii_voltage name of
              Inl e \<Rightarrow> Inl e
            | Inr (voltage, state) \<Rightarrow> Inr (Some (cycle, voltage, state))))"

definition parse_filename_nslsii :: "string \<Rightarrow> py_error + (string \<times> dict option)" where
  "parse_filename_nslsii name =
     (case parse_filename_nslsii_sample name of
        Inl e \<Rightarrow> Inl e
      | Inr sample \<Rightarrow>
          (case parse_filename_nslsii_charge name of
             Inl e \<Rightarrow> Inl e
           | Inr charge \<Rightarrow> Inr (sample, finish_charge charge)))"

section \<open>\<^verbatim>\<open>get_experiment_params\<close> (Eli's second batch)\<close>

text \<open>
  \<^verbatim>\<open>str.isspace\<close> on the characters of \<^typ>\<open>char\<close>: tab to carriage return, the four
  separators \<open>0x1C\<close> to \<open>0x1F\<close>, space, \<open>0x85\<close> and \<open>0xA0\<close>.
\<close>

definition isspace :: "char \<Rightarrow> bool" where
  "isspace c = ((of_char c :: nat) \<in> {9, 10, 11, 12, 13, 28, 29, 30, 31, 32, 133, 160})"

text \<open>
  \<^verbatim>\<open>name.split()\<close>: the maximal runs of non-whitespace characters, in order. \<open>cur\<close> is
  the run being read, reversed.
\<close>

fun split_from :: "string \<Rightarrow> string \<Rightarrow> string list" where
  "split_from cur [] = (if cur = [] then [] else [rev cur])"
| "split_from cur (c # cs) =
     (if isspace c then (if cur = [] then split_from [] cs else rev cur # split_from [] cs)
      else split_from (c # cur) cs)"

definition str_split :: "string \<Rightarrow> string list" where
  "str_split name = split_from [] name"

abbreviation charge_literal :: "int \<Rightarrow> real \<Rightarrow> string \<Rightarrow> dict" where
  "charge_literal c v s \<equiv> [(''cycle'', PInt c), (''voltage'', PFloat v), (''state'', PStr s)]"

text \<open>
  The dict literal \<^verbatim>\<open>experiment_to_params_map\<close>, in source order; each value
  \<^verbatim>\<open>{"sample": s, "charge": c}\<close> is the pair \<open>(s, c)\<close>.
\<close>

definition experiment_to_params_map :: "(string \<times> string \<times> dict) list" where
  "experiment_to_params_map =
     [(''1-1'', ''BM_NCMA'', charge_literal 1 3.0 ''DC''),
      (''1-2'', ''BM_NCMA'', charge_literal 10 4.8 ''C''),
      (''1-3'', ''BM_NCM712-Al'', charge_literal 1 3.0 ''DC''),
      (''1-4'', ''BM_NCM712-Al'', charge_literal 10 3.0 ''DC''),
      (''2-1'', ''BM_NCMA'', charge_literal 2 4.8 ''C''),
      (''2-2'', ''BM_NCM712-Al'', charge_literal 1 4.8 ''C''),
      (''2-3'', ''BM_NCM712-Al'', charge_literal 10 4.8 ''C''),
      (''2-4'', ''BM_NCM811'', charge_literal 1 3.0 ''DC''),
      (''3-1'', ''BM_NCM712-Al'', charge_literal 0 0.0 ''DC''),
      (''3-2'', ''BM_NCM712-Al'', charge_literal 2 4.8 ''C''),
      (''3-3'', ''BM_NCM622'', charge_literal 2 4.8 ''C''),
      (''3-4'', ''BM_NCM811'', charge_literal 2 4.8 ''C''),
      (''4-1'', ''BM_NCM811'', charge_literal 2 4.3 ''C''),
      (''4-2'', ''BM_NCM622'', charge_literal 1 4.8 ''C''),
      (''4-3'', ''BM_NCM811'', charge_literal 10 3.0 ''DC''),
      (''4-4'', ''BM_NCMA'', charge_literal 1 4.8 ''C''),
      (''5-1'', ''BM_NCM712-Al'', charge_literal 1 4.3 ''C''),
      (''5-2'', ''BM_NCM622'', charge_literal 2 4.3 ''C''),
      (''5-3'', ''BM_NCM811'', charge_literal 1 4.8 ''C''),
      (''5-4'', ''BM_NCM622'', charge_literal 10 3.0 ''DC''),
      (''6-1'', ''BM_NCM622'', charge_literal 1 3.0 ''DC''),
      (''6-2'', ''BM_NCM712-Al'', charge_literal 2 4.8 ''C''),
      (''6-3'', ''BM_NCM811'', charge_literal 10 4.8 ''C''),
      (''6-4'', ''BM_NCMA'', charge_literal 0 0.0 ''DC''),
      (''7-1'', ''BM_NCMA'', charge_literal 2 4.3 ''C''),
      (''7-2'', ''BM_NCM622'', charge_literal 1 4.3 ''C''),
      (''7-3'', ''BM_NCM811'', charge_literal 0 0.0 ''DC''),
      (''7-4'', ''BM_NCMA'', charge_literal 1 4.3 ''C''),
      (''8-1'', ''BM_NCM622'', charge_literal 0 0.0 ''DC''),
      (''8-2'', ''BM_NCM811'', charge_literal 1 4.3 ''C''),
      (''8-3'', ''BM_NCMA'', charge_literal 10 4.8 ''C''),
      (''8-4'', ''BM_NCM622'', charge_literal 10 4.8 ''C'')]"

definition get_experiment_params :: "string \<Rightarrow> py_error + (string \<times> dict)" where
  "get_experiment_params name =
     (case str_split name of
        [] \<Rightarrow> Inl IndexError
      | experiment_number # _ \<Rightarrow>
          (case map_of experiment_to_params_map experiment_number of
             None \<Rightarrow> Inl (KeyError experiment_number)
           | Some experiment_params \<Rightarrow> Inr (fst experiment_params, snd experiment_params)))"

section \<open>\<^verbatim>\<open>get_sample_charge\<close> (Gihyeok's Sigscan files)\<close>

definition file_to_sample_map :: "(string \<times> string list) list" where
  "file_to_sample_map =
     [(''BM_NCM622'',
        [''Sigscan71987'', ''Sigscan71991'', ''Sigscan71996'', ''Sigscan72001'',
         ''Sigscan72005'', ''Sigscan72009'', ''Sigscan71970'', ''Sigscan71974'']),
      (''BM_NCMA'',
        [''Sigscan71986'', ''Sigscan71990'', ''Sigscan71995'', ''Sigscan71999'',
         ''Sigscan72004'', ''Sigscan72008'', ''Sigscan71969'', ''Sigscan71973'']),
      (''BM_NCM811'',
        []),
      (''BM_NCM712-Al'',
        [''Sigscan71983'', ''Sigscan71988'', ''Sigscan71993'', ''Sigscan71997'',
         ''Sigscan72002'', ''Sigscan72006'', ''Sigscan72010'', ''Sigscan71971'']),
      (''BM_NCM712'',
        [''Sigscan71294'', ''Sigscan71295'', ''Sigscan71296'', ''Sigscan71297'',
         ''Sigscan71312'', ''Sigscan71313'', ''Sigscan71314'', ''Sigscan71315'',
         ''Sigscan71985'', ''Sigscan71989'', ''Sigscan71994'', ''Sigscan71998'',
         ''Sigscan72003'', ''Sigscan72007'', ''Sigscan71968'', ''Sigscan71972''])]"

definition file_to_charge_map :: "(string \<times> string list) list" where
  "file_to_charge_map =
     [(''Pristine'',
        [''Sigscan71294'', ''Sigscan72001'', ''Sigscan72002'', ''Sigscan72003'',
         ''Sigscan72004'']),
      (''1st_43V'',
        [''Sigscan71295'', ''Sigscan72005'', ''Sigscan72006'', ''Sigscan72007'',
         ''Sigscan72008'']),
      (''1st_48V'',
        [''Sigscan71296'', ''Sigscan72009'', ''Sigscan72010'', ''Sigscan71968'',
         ''Sigscan71969'']),
      (''1st_3V'',
        [''Sigscan71297'', ''Sigscan71970'', ''Sigscan71971'', ''Sigscan71972'',
         ''Sigscan71973'']),
      (''2nd_43V'',
        [''Sigscan71312'', ''Sigscan71983'', ''Sigscan71985'', ''Sigscan71986'',
         ''Sigscan71974'']),
      (''2nd_48V'',
        [''Sigscan71313'', ''Sigscan71987'', ''Sigscan71988'', ''Sigscan71989'',
         ''Sigscan71990'']),
      (''10th_48V'',
        [''Sigscan71314'', ''Sigscan71991'', ''Sigscan71993'', ''Sigscan71994'',
         ''Sigscan71995'']),
      (''10th_3V'',
        [''Sigscan71315'', ''Sigscan71996'', ''Sigscan71997'', ''Sigscan71998'',
         ''Sigscan71999''])]"

text \<open>
  \<^verbatim>\<open>for key, value in m.items(): if fname in value: found = key; break\<close>: the first
  key, in insertion order, whose list holds \<open>fname\<close>; \<open>None\<close> when the loop ends
  without a hit.
\<close>

fun first_key :: "(string \<times> string list) list \<Rightarrow> string \<Rightarrow> string option" where
  "first_key [] fname = None"
| "first_key ((key, val) # rest) fname =
     (if fname \<in> set val then Some key else first_key rest fname)"

text \<open>
  \<^verbatim>\<open>str.capitalize\<close>: first character upper case, the rest lower case. The case
  mapping is that of the ASCII letters, other characters are kept; the names in the two
  tables are ASCII.
\<close>

definition upper :: "char \<Rightarrow> char" where
  "upper c =
     (case map_of (zip ''abcdefghijklmnopqrstuvwxyz'' ''ABCDEFGHIJKLMNOPQRSTUVWXYZ'') c of
        None \<Rightarrow> c
      | Some u \<Rightarrow> u)"

definition lower :: "char \<Rightarrow> char" where
  "lower c =
     (case map_of (zip ''ABCDEFGHIJKLMNOPQRSTUVWXYZ'' ''abcdefghijklmnopqrstuvwxyz'') c of
        None \<Rightarrow> c
      | Some l \<Rightarrow> l)"

fun capitalize :: "string \<Rightarrow> string" where
  "capitalize [] = []"
| "capitalize (c # cs) = upper c # map lower cs"

text \<open>
  \<^verbatim>\<open>name.split("-")[0]\<close>: splitting on a non-empty separator always yields at least
  one piece, and the first piece is the text before the first \<open>-\<close>.
\<close>

definition split_dash_first :: "string \<Rightarrow> string" where
  "split_dash_first name = takeWhile (\<lambda>c. c \<noteq> CHR ''-'') name"

text \<open>
  A Python function that falls off its end returns \<^verbatim>\<open>None\<close>; nothing in the body
  raises, so the result is a \<^typ>\<open>string option\<close>.
\<close>

definition get_sample_charge :: "string \<Rightarrow> string option" where
  "get_sample_charge name =
     (let fname = capitalize (split_dash_first name);
          str_sample = first_key file_to_sample_map fname;
          str_charge = first_key file_to_charge_map fname
      in case (str_sample, str_charge) of
           (Some s, Some c) \<Rightarrow> Some (s @ ''_'' @ c)
         | _ \<Rightarrow> None)"

text \<open>
  The use of the result in \<^verbatim>\<open>ingest_aimm_ncm_gihyeok_sigscan\<close>:
  \<^verbatim>\<open>file_params = get_sample_charge(file.stem)\<close> and then
  \<^verbatim>\<open>parse_filename(file_params)\<close> inside \<^verbatim>\<open>try\<close> ... \<^verbatim>\<open>except KeyError\<close>. With
  \<^verbatim>\<open>None\<close> the first test of \<^verbatim>\<open>parse_filename\<close>, \<^verbatim>\<open>"622" in None\<close>, raises
  \<^verbatim>\<open>TypeError\<close>, which that \<^verbatim>\<open>except\<close> does not catch.
\<close>

definition sigscan_parse_filename :: "string \<Rightarrow> py_error + (string \<times> dict option)" where
  "sigscan_parse_filename stem =
     (case get_sample_charge stem of
        None \<Rightarrow> Inl TypeError
      | Some file_params \<Rightarrow> parse_filename file_params)"

section \<open>Per-column charge resolution\<close>

text \<open>
  The body of the column loop of \<^verbatim>\<open>ingest_aimm_ncm_gihyeok\<close> that computes
  \<^verbatim>\<open>metadata["charge"]\<close> from the column header.
\<close>

definition column_voltage_gihyeok :: "string \<Rightarrow> py_error + (real \<times> string)" where
  "column_voltage_gihyeok column =
     (if contains ''3.0'' column then Inr (3.0, ''DC'')
      else if contains ''4.8'' column then Inr (4.8, ''C'')
      else Inl (KeyError (''unable to parse voltage from '' @ column)))"

definition column_charge_gihyeok :: "string \<Rightarrow> py_error + dict" where
  "column_charge_gihyeok column =
     (if contains ''Pristine'' column then Inr (charge_dict (0, 0.0, ''DC''))
      else
        (case cycle_marker column of
           None \<Rightarrow> Inl (KeyError (''unable to parse cycle from '' @ column))
         | Some cycle \<Rightarrow>
             (case column_voltage_gihyeok column of
                Inl e \<Rightarrow> Inl e
              | Inr (voltage, state) \<Rightarrow> Inr (charge_dict (cycle, voltage, state)))))"

text \<open>The same computation in the column loop of \<^verbatim>\<open>ingest_aimm_ncm_gihyeok_oxygen\<close>.\<close>

definition column_voltage_oxygen :: "string \<Rightarrow> py_error + (real \<times> string)" where
  "column_voltage_oxygen column =
     (if contains ''3.0'' column then Inr (3.0, ''DC'')
      else if contains ''4.3'' column then Inr (4.3, ''C'')
      else if contains ''4.8'' column then Inr (4.8, ''C'')
      else Inl (KeyError (''unable to parse voltage from '' @ column)))"

definition column_charge_oxygen :: "string \<Rightarrow> py_error + dict" where
  "column_charge_oxygen column =
     (if contains ''Pristine'' column then Inr (charge_dict (0, 0.0, ''DC''))
      else
        (case cycle_marker column of
           None \<Rightarrow> Inl (KeyError (''unable to parse cycle from '' @ column))
         | Some cycle \<Rightarrow>
             (case column_voltage_oxygen column of
                Inl e \<Rightarrow> Inl e
              | Inr (voltage, state) \<Rightarrow> Inr (charge_dict (cycle, voltage, state)))))"

section \<open>The sample chains as ordered rule tables\<close>

text \<open>
  The specification describes sample resolution as an ordered list of (token, tag) rules
  evaluated in priority order, the first match winning. \<open>first_match\<close> is that
  evaluation and the three tables list the tokens of the three \<^verbatim>\<open>if\<close>/\<^verbatim>\<open>elif\<close> chains
  in source order; they are compared with the chains below.
\<close>

fun first_match :: "(string \<times> string) list \<Rightarrow> string \<Rightarrow> string option" where
  "first_match [] name = None"
| "first_match ((token, tag) # rules) name =
     (if contains token name then Some tag else first_match rules name)"

definition sample_rules :: "(string \<times> string) list" where
  "sample_rules =
     [(''622'', ''BM_NCM622''), (''NCMA'', ''BM_NCMA''), (''712_Al_free'', ''BM_NCM712''),
      (''712'', ''BM_NCM712-Al''), (''811'', ''BM_NCM811'')]"

definition sample_rules_gihyeok :: "(string \<times> string) list" where
  "sample_rules_gihyeok =
     [(''622'', ''BM_NCM622''), (''NCMA'', ''BM_NCMA''), (''712_Al-doped'', ''BM_NCM712-Al''),
      (''712'', ''BM_NCM712''), (''811'', ''BM_NCM811'')]"

definition sample_rules_nslsii :: "(string \<times> string) list" where
  "sample_rules_nslsii =
     [(''622'', ''BM_NCM622''), (''NCMA'', ''BM_NCMA''), (''NMCA'', ''BM_NCMA''),
      (''712'', ''BM_NCM712-Al''), (''721'', ''BM_NCM712-Al''), (''811'', ''BM_NCM811'')]"

text \<open>
  A table tests specific tokens before general ones when no token occurs inside a token
  that is tested after it: such a later token could never win.
\<close>

fun specific_first :: "(string \<times> string) list \<Rightarrow> bool" where
  "specific_first [] = True"
| "specific_first ((token, tag) # rules) =
     (list_all (\<lambda>rule. \<not> contains token (fst rule)) rules \<and> specific_first rules)"

section \<open>Facts about the string primitives\<close>

lemma contains_sublist: "contains sub s = sublist sub s"
  by (induction s) (auto simp: sublist_Cons_right)

lemma contains_iff: "contains sub s \<longleftrightarrow> (\<exists>ps ss. s = ps @ sub @ ss)"
  by (simp add: contains_sublist sublist_def)

lemma contains_trans: "contains a b \<Longrightarrow> contains b s \<Longrightarrow> contains a s"
  unfolding contains_sublist by (rule sublist_order.order_trans)

lemma isdigit_V [simp]: "\<not> isdigit CHR ''V''"
  by (simp add: isdigit_def)

lemma match_dV_digits:
  assumes "\<forall>c\<in>set ds. isdigit c"
  shows "match_dV (ds @ CHR ''V'' # post) = Some (ds @ ''V'')"
proof -
  have "takeWhile isdigit (ds @ CHR ''V'' # post) = ds"
    using assms by (simp add: takeWhile_append2)
  moreover have "dropWhile isdigit (ds @ CHR ''V'' # post) = CHR ''V'' # post"
    using assms by (simp add: dropWhile_append2)
  ultimately show ?thesis by (simp add: match_dV_def)
qed

lemma match_dV_no_V:
  assumes "CHR ''V'' \<notin> set p" "p \<noteq> []" "\<not> isdigit (last p)"
  shows "match_dV (p @ s) = None"
proof -
  have "last p \<in> set p" using assms(2) by simp
  then have eq: "dropWhile isdigit (p @ s) = dropWhile isdigit p @ s"
    using assms(3) by (simp add: dropWhile_append1)
  have ne: "dropWhile isdigit p \<noteq> []"
    using \<open>last p \<in> set p\<close> assms(3) by (auto simp: dropWhile_eq_Nil_conv)
  then obtain c r where cr: "dropWhile isdigit p = c # r" by (cases "dropWhile isdigit p") auto
  then have "c \<in> set p" by (metis list.set_intros(1) set_dropWhileD)
  then have "c \<noteq> CHR ''V''" using assms(1) by auto
  then show ?thesis by (simp add: match_dV_def eq cr)
qed

lemma re_search_dV_skip:
  assumes "CHR ''V'' \<notin> set pre" "pre = [] \<or> \<not> isdigit (last pre)"
  shows "re_search_dV (pre @ s) = re_search_dV s"
  using assms
proof (induction pre)
  case Nil
  then show ?case by simp
next
  case (Cons c pre)
  have "match_dV ((c # pre) @ s) = None"
    using Cons.prems by (intro match_dV_no_V) auto
  moreover have "pre = [] \<or> \<not> isdigit (last pre)"
    using Cons.prems by (cases pre) auto
  ultimately show ?case using Cons by simp
qed

lemma re_search_dV_first_V:
  assumes "CHR ''V'' \<notin> set pre" "pre = [] \<or> \<not> isdigit (last pre)" "\<forall>c\<in>set ds. isdigit c"
  shows "re_search_dV (pre @ ds @ CHR ''V'' # post) = Some (ds @ ''V'')"
proof -
  have "re_search_dV (ds @ CHR ''V'' # post) = Some (ds @ ''V'')"
    using match_dV_digits[OF assms(3), of post] by (cases ds) (simp_all add: match_dV_def)
  then show ?thesis using re_search_dV_skip[OF assms(1,2)] by simp
qed

lemma match_dV_None_no_V:
  assumes "CHR ''V'' \<notin> set s"
  shows "match_dV s = None"
proof (cases "dropWhile isdigit s")
  case Nil
  show ?thesis unfolding match_dV_def Nil by simp
next
  case (Cons c r)
  then have "c \<in> set s" by (metis list.set_intros(1) set_dropWhileD)
  then have "c \<noteq> CHR ''V''" using assms by auto
  then show ?thesis unfolding match_dV_def Cons by simp
qed

lemma re_search_dV_None_iff: "re_search_dV s = None \<longleftrightarrow> CHR ''V'' \<notin> set s"
proof
  show "CHR ''V'' \<notin> set s \<Longrightarrow> re_search_dV s = None"
    by (induction s) (simp_all add: match_dV_None_no_V)
  show "re_search_dV s = None \<Longrightarrow> CHR ''V'' \<notin> set s"
  proof (induction s)
    case Nil
    then show ?case by simp
  next
    case (Cons c cs)
    then show ?case by (auto simp: match_dV_def split: option.splits)
  qed
qed

lemma split_from_space:
  "\<forall>c\<in>set pre. isspace c \<Longrightarrow> split_from [] (pre @ s) = split_from [] s"
  by (induction pre) simp_all

lemma split_from_token:
  "\<forall>c\<in>set t. \<not> isspace c \<Longrightarrow> split_from cur (t @ s) = split_from (rev t @ cur) s"
  by (induction t arbitrary: cur) simp_all

lemma str_split_first_token:
  assumes "\<forall>c\<in>set pre. isspace c" "k \<noteq> []" "\<forall>c\<in>set k. \<not> isspace c"
    and "post = [] \<or> isspace (hd post)"
  shows "str_split (pre @ k @ post) = k # str_split post"
proof -
  have "str_split (pre @ k @ post) = split_from (rev k) post"
    using assms(1,3) by (simp add: str_split_def split_from_space split_from_token)
  also have "\<dots> = k # str_split post"
    using assms(2,4) by (cases post) (auto simp: str_split_def)
  finally show ?thesis .
qed

lemma first_key_None_iff:
  "first_key m fname = None \<longleftrightarrow> (\<forall>(key, val)\<in>set m. fname \<notin> set val)"
  by (induction m fname rule: first_key.induct) auto

lemma first_key_Some:
  "first_key m fname = Some key \<Longrightarrow> \<exists>val. (key, val) \<in> set m \<and> fname \<in> set val"
  by (induction m fname rule: first_key.induct) (auto split: if_splits)

lemma get_sample_charge_None_iff:
  "get_sample_charge name = None \<longleftrightarrow>
     first_key file_to_sample_map (capitalize (split_dash_first name)) = None \<or>
     first_key file_to_charge_map (capitalize (split_dash_first name)) = None"
  by (auto simp: get_sample_charge_def Let_def split: option.splits)

lemma contains_712_Al_free: "contains ''712_Al_free'' name \<Longrightarrow> contains ''712'' name"
  by (rule contains_trans[of "''712''" "''712_Al_free''"]) simp_all

lemma contains_712_Al_doped: "contains ''712_Al-doped'' name \<Longrightarrow> contains ''712'' name"
  by (rule contains_trans[of "''712''" "''712_Al-doped''"]) simp_all

lemma parse_filename_sample_rules:
  "parse_filename_sample name =
     (case first_match sample_rules name of
        None \<Rightarrow> Inl (KeyError (''unable to parse sample from '' @ name))
      | Some tag \<Rightarrow> Inr tag)"
  by (simp add: parse_filename_sample_def sample_rules_def)

lemma parse_filename_sample_tags:
  "parse_filename_sample name = Inr sample \<Longrightarrow>
     sample \<in> {''BM_NCM622'', ''BM_NCMA'', ''BM_NCM712'', ''BM_NCM712-Al'', ''BM_NCM811''}"
  by (auto simp: parse_filename_sample_def split: if_splits)

lemma parse_filename_sample_not_Ni_metal:
  "parse_filename_sample name \<noteq> Inr ''Ni_metal''"
  by (auto simp: parse_filename_sample_def)


section \<open>Facts about the stages of the classifiers\<close>

lemmas eval_defs =
  parse_filename_def parse_filename_sample_def parse_filename_charge_def
  parse_filename_voltage_def cycle_marker_def finish_charge_def charge_dict_def
  match_dV_def isdigit_def
  parse_filename_gihyeok_def parse_filename_gihyeok_sample_def parse_filename_gihyeok_symbol_def
  parse_filename_nslsii_def parse_filename_nslsii_sample_def parse_filename_nslsii_charge_def
  parse_filename_nslsii_voltage_def
  column_charge_gihyeok_def column_voltage_gihyeok_def
  column_charge_oxygen_def column_voltage_oxygen_def

lemma parse_filename_pristine:
  assumes "parse_filename_sample name = Inr sample" "contains ''Pristine'' name"
  shows "parse_filename name = Inr (sample, Some (charge_literal 0 0.0 ''DC''))"
  using assms parse_filename_sample_not_Ni_metal[of name]
  by (auto simp: parse_filename_def parse_filename_charge_def finish_charge_def charge_dict_def)

lemma parse_filename_nslsii_pristine:
  assumes "parse_filename_nslsii_sample name = Inr sample"
    and "contains ''pristine'' name \<or> contains ''Pristine'' name"
  shows "parse_filename_nslsii name = Inr (sample, Some (charge_literal 0 0.0 ''DC''))"
  using assms
  by (auto simp: parse_filename_nslsii_def parse_filename_nslsii_charge_def finish_charge_def
      charge_dict_def)

lemma parse_filename_no_cycle:
  assumes "parse_filename_sample name = Inr sample" "\<not> contains ''Pristine'' name"
    and "cycle_marker name = None"
  shows "parse_filename name = Inl (KeyError (''unable to parse cycle from '' @ name))"
  using assms parse_filename_sample_not_Ni_metal[of name]
  by (auto simp: parse_filename_def parse_filename_charge_def)

lemma parse_filename_at_voltage:
  assumes "parse_filename_sample name = Inr sample" "\<not> contains ''Pristine'' name"
    and "cycle_marker name = Some cycle"
  shows "parse_filename name =
     (case parse_filename_voltage name of
        Inl e \<Rightarrow> Inl e
      | Inr (voltage, state) \<Rightarrow> Inr (sample, Some (charge_literal cycle voltage state)))"
  using assms parse_filename_sample_not_Ni_metal[of name]
  by (auto simp: parse_filename_def parse_filename_charge_def finish_charge_def charge_dict_def
      split: sum.splits)

lemma parse_filename_no_V:
  assumes "parse_filename_sample name = Inr sample" "\<not> contains ''Pristine'' name"
    and "cycle_marker name = Some cycle" "CHR ''V'' \<notin> set name"
  shows "parse_filename name = Inl TypeError"
proof -
  have "re_search_dV name = None" using assms(4) by (simp add: re_search_dV_None_iff)
  then show ?thesis
    using parse_filename_at_voltage[OF assms(1-3)] by (simp add: parse_filename_voltage_def)
qed

lemma parse_filename_Inr_charge:
  assumes "parse_filename name = Inr (sample, charge)"
  shows "\<exists>cycle voltage state. charge = Some (charge_literal cycle voltage state)"
  using assms parse_filename_sample_not_Ni_metal[of name]
  by (auto simp: parse_filename_def parse_filename_charge_def finish_charge_def charge_dict_def
      split: sum.splits if_splits option.splits)






section \<open>Voltage resolution of \<^verbatim>\<open>parse_filename\<close>\<close>

text \<open>
  Claim C1: an input of \<^verbatim>\<open>parse_filename\<close> that reaches voltage resolution and has no
  recognized voltage marker should fail with \<^verbatim>\<open>KeyError\<close> and with nothing else, also
  when it has no \<open>V\<close> at all. On the code the file name below, whose voltage is written
  with a lower-case \<open>v\<close>, reaches voltage resolution, \<^verbatim>\<open>re.search\<close> finds nothing and
  the subscript on its \<^verbatim>\<open>None\<close> raises \<^verbatim>\<open>TypeError\<close>.
\<close>

theorem parse_filename_lowercase_v_TypeError:
  "parse_filename ''BM_622_1st_43v_scan.txt'' = Inl TypeError"
  by (simp add: eval_defs)

text \<open>
  Claim C4, as amended: in \<^verbatim>\<open>parse_filename\<close>, for every input that reaches voltage
  resolution, the voltage marker is the first \<open>V\<close> of the input together with the
  longest run of digits directly before it (\<open>pre\<close> has no \<open>V\<close> and does not end in a
  digit, \<open>ds\<close> are digits). If that marker is \<open>43V\<close> the result has voltage 4.3 and
  state C, if it is \<open>48V\<close> voltage 4.8 and state C, if it is \<open>3V\<close> voltage 3.0 and state
  DC, and any other marker raises \<^verbatim>\<open>KeyError\<close> naming it. In particular
  \<^verbatim>\<open>parse_filename("BM_622_1st_43V_scan.txt")\<close> returns
  \<^verbatim>\<open>("BM_NCM622", {"cycle": 1, "voltage": 4.3, "state": "C"})\<close>.
\<close>

theorem parse_filename_first_V_marker:
  assumes "parse_filename_sample name = Inr sample"
    and "\<not> contains ''Pristine'' name"
    and "cycle_marker name = Some cycle"
    and "name = pre @ ds @ ''V'' @ post"
    and "CHR ''V'' \<notin> set pre"
    and "pre = [] \<or> \<not> isdigit (last pre)"
    and "\<forall>c\<in>set ds. isdigit c"
  shows "(ds = ''43'' \<longrightarrow>
            parse_filename name = Inr (sample, Some (charge_literal cycle 4.3 ''C''))) \<and>
         (ds = ''48'' \<longrightarrow>
            parse_filename name = Inr (sample, Some (charge_literal cycle 4.8 ''C''))) \<and>
         (ds = ''3'' \<longrightarrow>
            parse_filename name = Inr (sample, Some (charge_literal cycle 3.0 ''DC''))) \<and>
         (ds \<notin> {''43'', ''48'', ''3''} \<longrightarrow>
            parse_filename name =
              Inl (KeyError (''unable to parse voltage from '' @ ds @ ''V''))) \<and>
         parse_filename ''BM_622_1st_43V_scan.txt'' =
           Inr (''BM_NCM622'', Some (charge_literal 1 4.3 ''C''))"
proof -
  have "re_search_dV name = Some (ds @ ''V'')"
    using re_search_dV_first_V[OF assms(5,6,7), of post] assms(4) by simp
  then have "parse_filename_voltage name =
     (if ds = ''43'' then Inr (4.3, ''C'')
      else if ds = ''48'' then Inr (4.8, ''C'')
      else if ds = ''3'' then Inr (3.0, ''DC'')
      else Inl (KeyError (''unable to parse voltage from '' @ ds @ ''V'')))"
    by (simp add: parse_filename_voltage_def)
  then have "(ds = ''43'' \<longrightarrow>
            parse_filename name = Inr (sample, Some (charge_literal cycle 4.3 ''C''))) \<and>
         (ds = ''48'' \<longrightarrow>
            parse_filename name = Inr (sample, Some (charge_literal cycle 4.8 ''C''))) \<and>
         (ds = ''3'' \<longrightarrow>
            parse_filename name = Inr (sample, Some (charge_literal cycle 3.0 ''DC''))) \<and>
         (ds \<notin> {''43'', ''48'', ''3''} \<longrightarrow>
            parse_filename name =
              Inl (KeyError (''unable to parse voltage from '' @ ds @ ''V'')))"
    using parse_filename_at_voltage[OF assms(1-3)] by simp
  moreover have "parse_filename ''BM_622_1st_43V_scan.txt'' =
           Inr (''BM_NCM622'', Some (charge_literal 1 4.3 ''C''))"
    by (simp add: eval_defs)
  ultimately show ?thesis by blast
qed

text \<open>The theorem at \<^verbatim>\<open>BM_811_2nd_3V_a.txt\<close>, whose first \<open>V\<close> follows the digit 3.\<close>

theorem parse_filename_first_V_marker_witness:
  "parse_filename_sample ''BM_811_2nd_3V_a.txt'' = Inr ''BM_NCM811'' \<and>
   \<not> contains ''Pristine'' ''BM_811_2nd_3V_a.txt'' \<and>
   cycle_marker ''BM_811_2nd_3V_a.txt'' = Some 2 \<and>
   ''BM_811_2nd_3V_a.txt'' = ''BM_811_2nd_'' @ ''3'' @ ''V'' @ ''_a.txt'' \<and>
   CHR ''V'' \<notin> set ''BM_811_2nd_'' \<and> \<not> isdigit (last ''BM_811_2nd_'') \<and>
   list_all isdigit ''3'' \<and>
   parse_filename ''BM_811_2nd_3V_a.txt'' =
     Inr (''BM_NCM811'', Some (charge_literal 2 3.0 ''DC''))"
proof -
  have h1: "parse_filename_sample ''BM_811_2nd_3V_a.txt'' = Inr ''BM_NCM811''"
    by (simp add: parse_filename_sample_def)
  have h2: "\<not> contains ''Pristine'' ''BM_811_2nd_3V_a.txt''"
    by simp
  have h3: "cycle_marker ''BM_811_2nd_3V_a.txt'' = Some 2"
    by (simp add: cycle_marker_def)
  have h4: "''BM_811_2nd_3V_a.txt'' = ''BM_811_2nd_'' @ ''3'' @ ''V'' @ ''_a.txt''"
    by simp
  have h5: "CHR ''V'' \<notin> set ''BM_811_2nd_''"
    by simp
  have h6: "''BM_811_2nd_'' = [] \<or> \<not> isdigit (last ''BM_811_2nd_'')"
    by (simp add: isdigit_def)
  have h7: "\<forall>c\<in>set ''3''. isdigit c"
    by (simp add: isdigit_def)
  have "parse_filename ''BM_811_2nd_3V_a.txt'' =
      Inr (''BM_NCM811'', Some (charge_literal 2 3.0 ''DC''))"
    using parse_filename_first_V_marker[OF h1 h2 h3 h4 h5 h6 h7] by blast
  then show ?thesis
    using h1 h2 h3 h5 h6 h7 by (simp add: list_all_iff)
qed

text \<open>
  Two inputs that contain \<open>43V\<close>, reach voltage resolution and do not yield voltage 4.3
  and state C: in the first an earlier \<open>V\<close> is matched, in the second the digit before
  \<open>43V\<close> belongs to the match. Both raise \<^verbatim>\<open>KeyError\<close>.
\<close>

theorem parse_filename_earlier_V_counterexample:
  "contains ''43V'' ''BM_622_1st_Voltage_43V.txt'' \<and>
   parse_filename_sample ''BM_622_1st_Voltage_43V.txt'' = Inr ''BM_NCM622'' \<and>
   \<not> contains ''Pristine'' ''BM_622_1st_Voltage_43V.txt'' \<and>
   cycle_marker ''BM_622_1st_Voltage_43V.txt'' = Some 1 \<and>
   parse_filename ''BM_622_1st_Voltage_43V.txt'' =
     Inl (KeyError ''unable to parse voltage from V'') \<and>
   contains ''43V'' ''BM_622_1st_143V.txt'' \<and>
   parse_filename_sample ''BM_622_1st_143V.txt'' = Inr ''BM_NCM622'' \<and>
   \<not> contains ''Pristine'' ''BM_622_1st_143V.txt'' \<and>
   cycle_marker ''BM_622_1st_143V.txt'' = Some 1 \<and>
   parse_filename ''BM_622_1st_143V.txt'' =
     Inl (KeyError ''unable to parse voltage from 143V'')"
  by (simp add: eval_defs)

section \<open>Pristine inputs\<close>

text \<open>
  Claim C8: for every input that contains the pristine marker and on which sample
  resolution succeeds, the charge is \<^verbatim>\<open>{"cycle": 0, "voltage": 0.0, "state": "DC"}\<close>,
  whatever cycle or voltage tokens the input also has. The marker is \<open>Pristine\<close> in
  \<^verbatim>\<open>parse_filename\<close> and \<open>pristine\<close> or \<open>Pristine\<close> in \<^verbatim>\<open>parse_filename_nslsii\<close>. In
  particular \<^verbatim>\<open>parse_filename("NCMA_Pristine_scan.txt")\<close> returns
  \<^verbatim>\<open>("BM_NCMA", {"cycle": 0, "voltage": 0.0, "state": "DC"})\<close>.
\<close>

theorem pristine_charge:
  "(parse_filename_sample name = Inr sample \<and> contains ''Pristine'' name \<longrightarrow>
      parse_filename name = Inr (sample, Some (charge_literal 0 0.0 ''DC''))) \<and>
   (parse_filename_nslsii_sample name = Inr sample' \<and>
    (contains ''pristine'' name \<or> contains ''Pristine'' name) \<longrightarrow>
      parse_filename_nslsii name = Inr (sample', Some (charge_literal 0 0.0 ''DC''))) \<and>
   parse_filename ''NCMA_Pristine_scan.txt'' =
     Inr (''BM_NCMA'', Some (charge_literal 0 0.0 ''DC''))"
proof -
  have "parse_filename ''NCMA_Pristine_scan.txt'' =
     Inr (''BM_NCMA'', Some (charge_literal 0 0.0 ''DC''))"
    by (simp add: eval_defs)
  then show ?thesis
    using parse_filename_pristine[of name sample] parse_filename_nslsii_pristine[of name sample']
    by blast
qed

text \<open>Two pristine file names that also carry a cycle and a voltage token.\<close>

theorem pristine_charge_witness:
  "parse_filename_sample ''NCMA_Pristine_2nd_48V.txt'' = Inr ''BM_NCMA'' \<and>
   contains ''Pristine'' ''NCMA_Pristine_2nd_48V.txt'' \<and>
   parse_filename ''NCMA_Pristine_2nd_48V.txt'' =
     Inr (''BM_NCMA'', Some (charge_literal 0 0.0 ''DC'')) \<and>
   parse_filename_nslsii_sample ''811_pristine_10th_4_8.txt'' = Inr ''BM_NCM811'' \<and>
   contains ''pristine'' ''811_pristine_10th_4_8.txt'' \<and>
   parse_filename_nslsii ''811_pristine_10th_4_8.txt'' =
     Inr (''BM_NCM811'', Some (charge_literal 0 0.0 ''DC''))"
proof -
  have a1: "parse_filename_sample ''NCMA_Pristine_2nd_48V.txt'' = Inr ''BM_NCMA''"
    by (simp add: parse_filename_sample_def)
  have a2: "contains ''Pristine'' ''NCMA_Pristine_2nd_48V.txt''"
    by simp
  have b1: "parse_filename_nslsii_sample ''811_pristine_10th_4_8.txt'' = Inr ''BM_NCM811''"
    by (simp add: parse_filename_nslsii_sample_def)
  have b2: "contains ''pristine'' ''811_pristine_10th_4_8.txt''"
    by simp
  show ?thesis
    using a1 a2 b1 b2
      pristine_charge[of "''NCMA_Pristine_2nd_48V.txt''" "''BM_NCMA''" "''X''"]
      pristine_charge[of "''811_pristine_10th_4_8.txt''" "''X''" "''BM_NCM811''"]
    by blast
qed

section \<open>The charge returned by \<^verbatim>\<open>parse_filename\<close>\<close>

lemma parse_filename_charge_None:
  "parse_filename_charge sample name = Inr None \<Longrightarrow> sample = ''Ni_metal''"
  by (auto simp: parse_filename_charge_def split: if_splits option.splits sum.splits)

lemma parse_filename_Inr_sample:
  "parse_filename name = Inr (sample, charge) \<Longrightarrow> parse_filename_sample name = Inr sample"
  by (auto simp: parse_filename_def split: sum.splits)

text \<open>
  Claim C9: whenever \<^verbatim>\<open>parse_filename\<close> returns, the charge is a dict with exactly the
  keys \<open>cycle\<close>, \<open>voltage\<close> and \<open>state\<close>. It is never \<^verbatim>\<open>None\<close>: the sample is one of
  the five \<open>BM_\<close> tags, so the branch guarded by \<^verbatim>\<open>sample == "Ni_metal"\<close>, the only one
  that leaves the charge \<^verbatim>\<open>None\<close>, is not taken.
\<close>

theorem parse_filename_charge_is_dict:
  assumes "parse_filename name = Inr (sample, charge)"
  shows "sample \<in> {''BM_NCM622'', ''BM_NCMA'', ''BM_NCM712'', ''BM_NCM712-Al'', ''BM_NCM811''} \<and>
         sample \<noteq> ''Ni_metal'' \<and>
         parse_filename_charge sample name \<noteq> Inr None \<and>
         (\<exists>d. charge = Some d \<and> map fst d = [''cycle'', ''voltage'', ''state''])"
proof -
  have s: "parse_filename_sample name = Inr sample"
    using assms by (rule parse_filename_Inr_sample)
  have t: "sample \<in> {''BM_NCM622'', ''BM_NCMA'', ''BM_NCM712'', ''BM_NCM712-Al'', ''BM_NCM811''}"
    using s by (rule parse_filename_sample_tags)
  have n: "sample \<noteq> ''Ni_metal''"
    using s parse_filename_sample_not_Ni_metal[of name] by auto
  have c: "parse_filename_charge sample name \<noteq> Inr None"
    using n parse_filename_charge_None by blast
  obtain cycle voltage state where "charge = Some (charge_literal cycle voltage state)"
    using parse_filename_Inr_charge[OF assms] by blast
  then have "\<exists>d. charge = Some d \<and> map fst d = [''cycle'', ''voltage'', ''state'']"
    by simp
  then show ?thesis using t n c by blast
qed

text \<open>The theorem at the end-to-end example of the specification.\<close>

theorem parse_filename_charge_is_dict_witness:
  "parse_filename ''BM_622_1st_43V_scan.txt'' =
     Inr (''BM_NCM622'', Some (charge_literal 1 4.3 ''C'')) \<and>
   ''BM_NCM622'' \<noteq> ''Ni_metal'' \<and>
   parse_filename_charge ''BM_NCM622'' ''BM_622_1st_43V_scan.txt'' \<noteq> Inr None \<and>
   map fst (charge_literal 1 4.3 ''C'') = [''cycle'', ''voltage'', ''state'']"
proof -
  have h: "parse_filename ''BM_622_1st_43V_scan.txt'' =
     Inr (''BM_NCM622'', Some (charge_literal 1 4.3 ''C''))"
    by (simp add: eval_defs)
  show ?thesis
    using h parse_filename_charge_is_dict[OF h] by simp
qed

section \<open>The experiment-key table\<close>

lemma get_experiment_params_token:
  assumes "\<forall>c\<in>set pre. isspace c" "k \<noteq> []" "\<forall>c\<in>set k. \<not> isspace c"
    and "post = [] \<or> isspace (hd post)"
  shows "get_experiment_params (pre @ k @ post) =
     (case map_of experiment_to_params_map k of
        None \<Rightarrow> Inl (KeyError k)
      | Some experiment_params \<Rightarrow> Inr experiment_params)"
  using str_split_first_token[OF assms]
  by (simp add: get_experiment_params_def split: option.splits)

lemma experiment_to_params_map_size:
  "length experiment_to_params_map = 32 \<and> distinct (map fst experiment_to_params_map)"
  by (simp add: experiment_to_params_map_def)

text \<open>
  Claim C2, as amended: \<^verbatim>\<open>get_experiment_params\<close> splits its input on whitespace and
  takes the first token \<open>k\<close> (the input is whitespace \<open>pre\<close>, then \<open>k\<close>, then either
  nothing or whitespace and more text) as key into a static table of exactly 32 entries
  with distinct keys. It is total over those keys, returning the sample and charge of the
  entry of \<open>k\<close>; it maps key \<open>1-1\<close> to \<^verbatim>\<open>("BM_NCMA", {"cycle": 1, "voltage": 3.0,
  "state": "DC"})\<close>; and for every key outside the table, such as \<open>9-9\<close>, it raises
  \<^verbatim>\<open>KeyError\<close> with the missing key.
\<close>

theorem get_experiment_params_lookup:
  assumes "\<forall>c\<in>set pre. isspace c"
    and "k \<noteq> []"
    and "\<forall>c\<in>set k. \<not> isspace c"
    and "post = [] \<or> isspace (hd post)"
  shows "length experiment_to_params_map = 32 \<and>
         distinct (map fst experiment_to_params_map) \<and>
         (k \<in> set (map fst experiment_to_params_map) \<longrightarrow>
            (\<exists>sample charge. (k, sample, charge) \<in> set experiment_to_params_map \<and>
               get_experiment_params (pre @ k @ post) = Inr (sample, charge))) \<and>
         (k \<notin> set (map fst experiment_to_params_map) \<longrightarrow>
            get_experiment_params (pre @ k @ post) = Inl (KeyError k)) \<and>
         get_experiment_params ''1-1'' = Inr (''BM_NCMA'', charge_literal 1 3.0 ''DC'') \<and>
         get_experiment_params ''9-9'' = Inl (KeyError ''9-9'')"
proof -
  note eq = get_experiment_params_token[OF assms]
  have in_table: "\<exists>sample charge. (k, sample, charge) \<in> set experiment_to_params_map \<and>
               get_experiment_params (pre @ k @ post) = Inr (sample, charge)"
    if "k \<in> set (map fst experiment_to_params_map)"
  proof -
    have "map_of experiment_to_params_map k \<noteq> None"
      using that by (simp add: map_of_eq_None_iff)
    then obtain sample charge where v: "map_of experiment_to_params_map k = Some (sample, charge)"
      by (cases "map_of experiment_to_params_map k") auto
    have "(k, sample, charge) \<in> set experiment_to_params_map"
      using v by (rule map_of_SomeD)
    moreover have "get_experiment_params (pre @ k @ post) = Inr (sample, charge)"
      unfolding eq v by simp
    ultimately show ?thesis by blast
  qed
  have not_in_table: "get_experiment_params (pre @ k @ post) = Inl (KeyError k)"
    if "k \<notin> set (map fst experiment_to_params_map)"
  proof -
    have "map_of experiment_to_params_map k = None"
      using that by (simp add: map_of_eq_None_iff)
    then show ?thesis unfolding eq by simp
  qed
  have e1: "get_experiment_params ''1-1'' = Inr (''BM_NCMA'', charge_literal 1 3.0 ''DC'')"
    by (simp add: get_experiment_params_def str_split_def isspace_def
        experiment_to_params_map_def)
  have e2: "get_experiment_params ''9-9'' = Inl (KeyError ''9-9'')"
    by (simp add: get_experiment_params_def str_split_def isspace_def
        experiment_to_params_map_def)
  show ?thesis
  proof (intro conjI impI)
    show "length experiment_to_params_map = 32"
      using experiment_to_params_map_size by (rule conjunct1)
    show "distinct (map fst experiment_to_params_map)"
      using experiment_to_params_map_size by (rule conjunct2)
    show "\<exists>sample charge. (k, sample, charge) \<in> set experiment_to_params_map \<and>
               get_experiment_params (pre @ k @ post) = Inr (sample, charge)"
      if "k \<in> set (map fst experiment_to_params_map)"
      using that by (rule in_table)
    show "get_experiment_params (pre @ k @ post) = Inl (KeyError k)"
      if "k \<notin> set (map fst experiment_to_params_map)"
      using that by (rule not_in_table)
    show "get_experiment_params ''1-1'' = Inr (''BM_NCMA'', charge_literal 1 3.0 ''DC'')"
      by (fact e1)
    show "get_experiment_params ''9-9'' = Inl (KeyError ''9-9'')"
      by (fact e2)
  qed
qed

text \<open>The theorem at two file stems, one with a key of the table and one without.\<close>

theorem get_experiment_params_lookup_witness:
  "list_all isspace '' '' \<and> ''4-1'' \<noteq> [] \<and> list_all (\<lambda>c. \<not> isspace c) ''4-1'' \<and>
   isspace (hd '' NCM811 scan 12'') \<and>
   ''4-1'' \<in> set (map fst experiment_to_params_map) \<and>
   get_experiment_params '' 4-1 NCM811 scan 12'' =
     Inr (''BM_NCM811'', charge_literal 2 4.3 ''C'') \<and>
   ''9-9'' \<notin> set (map fst experiment_to_params_map) \<and>
   get_experiment_params ''9-9 NCM811 scan 12'' = Inl (KeyError ''9-9'')"
proof -
  have h1: "\<forall>c\<in>set '' ''. isspace c" by (simp add: isspace_def)
  have h2: "''4-1'' \<noteq> []" by simp
  have h3: "\<forall>c\<in>set ''4-1''. \<not> isspace c" by (simp add: isspace_def)
  have h4: "'' NCM811 scan 12'' = [] \<or> isspace (hd '' NCM811 scan 12'')"
    by (simp add: isspace_def)
  have g1: "\<forall>c\<in>set ''''. isspace c" by simp
  have g2: "''9-9'' \<noteq> []" by simp
  have g3: "\<forall>c\<in>set ''9-9''. \<not> isspace c" by (simp add: isspace_def)
  have m1: "''4-1'' \<in> set (map fst experiment_to_params_map)"
    by (simp add: experiment_to_params_map_def)
  have m2: "''9-9'' \<notin> set (map fst experiment_to_params_map)"
    by (simp add: experiment_to_params_map_def)
  have d: "distinct (map fst experiment_to_params_map)"
    using get_experiment_params_lookup[OF h1 h2 h3 h4] by blast
  obtain sample charge where sc: "(''4-1'', sample, charge) \<in> set experiment_to_params_map"
    and r: "get_experiment_params ('' '' @ ''4-1'' @ '' NCM811 scan 12'') = Inr (sample, charge)"
    using get_experiment_params_lookup[OF h1 h2 h3 h4] m1 by blast
  have "(''4-1'', ''BM_NCM811'', charge_literal 2 4.3 ''C'') \<in> set experiment_to_params_map"
    by (simp add: experiment_to_params_map_def)
  then have "(sample, charge) = (''BM_NCM811'', charge_literal 2 4.3 ''C'')"
    using sc d by (metis map_of_is_SomeI option.inject)
  then have r1: "get_experiment_params '' 4-1 NCM811 scan 12'' =
     Inr (''BM_NCM811'', charge_literal 2 4.3 ''C'')"
    using r by simp
  have r2: "get_experiment_params ''9-9 NCM811 scan 12'' = Inl (KeyError ''9-9'')"
    using get_experiment_params_lookup[OF g1 g2 g3 h4] m2 by simp
  show ?thesis
    using h1 h3 h4 m1 m2 r1 r2 by (simp add: list_all_iff)
qed

text \<open>The table does not have the 40 entries the claim states: it has 8 groups of 4.\<close>

theorem experiment_to_params_map_not_40_counterexample:
  "\<not> length experiment_to_params_map = 40"
  by (simp add: experiment_to_params_map_def)

section \<open>Per-column voltage markers\<close>

text \<open>
  Claim C5: each per-column variant should recognize the dotted markers \<open>3.0\<close>, \<open>4.3\<close>
  and \<open>4.8\<close>. The column loop of \<^verbatim>\<open>ingest_aimm_ncm_gihyeok\<close> has no branch for \<open>4.3\<close>:
  on the header \<open>Ni_1st_4.3\<close> it raises \<^verbatim>\<open>KeyError\<close>, where the loop of
  \<^verbatim>\<open>ingest_aimm_ncm_gihyeok_oxygen\<close> yields cycle 1, voltage 4.3 and state C.
\<close>

theorem column_charge_gihyeok_4_3_KeyError:
  "column_charge_gihyeok ''Ni_1st_4.3'' =
     Inl (KeyError ''unable to parse voltage from Ni_1st_4.3'') \<and>
   column_charge_oxygen ''Ni_1st_4.3'' = Inr (charge_literal 1 4.3 ''C'')"
  by (simp add: eval_defs)

text \<open>
  The end-to-end header \<open>Ni_2nd_4.8\<close> resolves in both loops, and the markers each loop
  does test resolve in the order of its chain.
\<close>

lemma column_charge_Ni_2nd_4_8:
  "column_charge_gihyeok ''Ni_2nd_4.8'' = Inr (charge_literal 2 4.8 ''C'') \<and>
   column_charge_oxygen ''Ni_2nd_4.8'' = Inr (charge_literal 2 4.8 ''C'')"
  by (simp add: eval_defs)

lemma column_voltage_oxygen_markers:
  "(contains ''3.0'' column \<longrightarrow> column_voltage_oxygen column = Inr (3.0, ''DC'')) \<and>
   (\<not> contains ''3.0'' column \<and> contains ''4.3'' column \<longrightarrow>
      column_voltage_oxygen column = Inr (4.3, ''C'')) \<and>
   (\<not> contains ''3.0'' column \<and> \<not> contains ''4.3'' column \<and> contains ''4.8'' column \<longrightarrow>
      column_voltage_oxygen column = Inr (4.8, ''C''))"
  by (simp add: column_voltage_oxygen_def)

lemma column_voltage_gihyeok_markers:
  "(contains ''3.0'' column \<longrightarrow> column_voltage_gihyeok column = Inr (3.0, ''DC'')) \<and>
   (\<not> contains ''3.0'' column \<and> contains ''4.8'' column \<longrightarrow>
      column_voltage_gihyeok column = Inr (4.8, ''C'')) \<and>
   (\<not> contains ''3.0'' column \<and> \<not> contains ''4.8'' column \<longrightarrow>
      column_voltage_gihyeok column =
        Inl (KeyError (''unable to parse voltage from '' @ column)))"
  by (simp add: column_voltage_gihyeok_def)

section \<open>Priority of the sample tokens\<close>

lemma parse_filename_gihyeok_sample_rules:
  "parse_filename_gihyeok_sample name =
     (case first_match sample_rules_gihyeok name of
        None \<Rightarrow> Inl (KeyError (''unable to parse sample from '' @ name))
      | Some tag \<Rightarrow> Inr tag)"
  by (simp add: parse_filename_gihyeok_sample_def sample_rules_gihyeok_def)

lemma parse_filename_nslsii_sample_rules:
  "parse_filename_nslsii_sample name =
     (case first_match sample_rules_nslsii name of
        None \<Rightarrow> Inl (KeyError (''unable to parse sample from '' @ name))
      | Some tag \<Rightarrow> Inr tag)"
  by (simp add: parse_filename_nslsii_sample_def sample_rules_nslsii_def)

lemma specific_first_tables:
  "specific_first sample_rules \<and> specific_first sample_rules_gihyeok \<and>
   specific_first sample_rules_nslsii"
  by (simp add: sample_rules_def sample_rules_gihyeok_def sample_rules_nslsii_def)

lemma parse_filename_sample_712_Al_free:
  "contains ''712_Al_free'' name \<Longrightarrow> \<not> contains ''622'' name \<Longrightarrow> \<not> contains ''NCMA'' name \<Longrightarrow>
     parse_filename_sample name = Inr ''BM_NCM712''"
  by (simp add: parse_filename_sample_def)

lemma parse_filename_sample_never_general:
  "contains ''712_Al_free'' name \<Longrightarrow> parse_filename_sample name \<noteq> Inr ''BM_NCM712-Al''"
  by (simp add: parse_filename_sample_def)

lemma parse_filename_gihyeok_sample_712_Al_doped:
  "contains ''712_Al-doped'' name \<Longrightarrow> \<not> contains ''622'' name \<Longrightarrow> \<not> contains ''NCMA'' name \<Longrightarrow>
     parse_filename_gihyeok_sample name = Inr ''BM_NCM712-Al''"
  by (simp add: parse_filename_gihyeok_sample_def)

lemma parse_filename_gihyeok_sample_never_general:
  "contains ''712_Al-doped'' name \<Longrightarrow> parse_filename_gihyeok_sample name \<noteq> Inr ''BM_NCM712''"
  by (simp add: parse_filename_gihyeok_sample_def)

text \<open>
  Claim C6, as amended: in \<^verbatim>\<open>parse_filename\<close>, every input that contains the specific
  token \<open>712_Al_free\<close> (and with it the general token \<open>712\<close>) and neither of the
  earlier tokens \<open>622\<close> and \<open>NCMA\<close> resolves to the specific token's tag \<open>BM_NCM712\<close>,
  and no input containing \<open>712_Al_free\<close> resolves to the general token's tag
  \<open>BM_NCM712-Al\<close>. \<^verbatim>\<open>parse_filename_gihyeok\<close> does the same with its specific token
  \<open>712_Al-doped\<close> (tag \<open>BM_NCM712-Al\<close>) and \<open>712\<close> (tag \<open>BM_NCM712\<close>). More
  generally, in both functions the sample tokens are tested in a fixed priority order,
  the first match wins, and a token that contains another token is tested before it.
\<close>

theorem sample_tie_break:
  "(contains ''712_Al_free'' name \<and> \<not> contains ''622'' name \<and> \<not> contains ''NCMA'' name \<longrightarrow>
      parse_filename_sample name = Inr ''BM_NCM712'') \<and>
   (contains ''712_Al_free'' name \<longrightarrow> parse_filename_sample name \<noteq> Inr ''BM_NCM712-Al'') \<and>
   (contains ''712_Al-doped'' name \<and> \<not> contains ''622'' name \<and> \<not> contains ''NCMA'' name \<longrightarrow>
      parse_filename_gihyeok_sample name = Inr ''BM_NCM712-Al'') \<and>
   (contains ''712_Al-doped'' name \<longrightarrow>
      parse_filename_gihyeok_sample name \<noteq> Inr ''BM_NCM712'') \<and>
   parse_filename_sample name =
     (case first_match sample_rules name of
        None \<Rightarrow> Inl (KeyError (''unable to parse sample from '' @ name))
      | Some tag \<Rightarrow> Inr tag) \<and>
   parse_filename_gihyeok_sample name =
     (case first_match sample_rules_gihyeok name of
        None \<Rightarrow> Inl (KeyError (''unable to parse sample from '' @ name))
      | Some tag \<Rightarrow> Inr tag) \<and>
   specific_first sample_rules \<and> specific_first sample_rules_gihyeok"
proof (intro conjI impI)
  show "parse_filename_sample name = Inr ''BM_NCM712''"
    if "contains ''712_Al_free'' name \<and> \<not> contains ''622'' name \<and> \<not> contains ''NCMA'' name"
    using that by (simp add: parse_filename_sample_712_Al_free)
  show "parse_filename_sample name \<noteq> Inr ''BM_NCM712-Al''" if "contains ''712_Al_free'' name"
    using that by (rule parse_filename_sample_never_general)
  show "parse_filename_gihyeok_sample name = Inr ''BM_NCM712-Al''"
    if "contains ''712_Al-doped'' name \<and> \<not> contains ''622'' name \<and> \<not> contains ''NCMA'' name"
    using that by (simp add: parse_filename_gihyeok_sample_712_Al_doped)
  show "parse_filename_gihyeok_sample name \<noteq> Inr ''BM_NCM712''"
    if "contains ''712_Al-doped'' name"
    using that by (rule parse_filename_gihyeok_sample_never_general)
  show "parse_filename_sample name =
     (case first_match sample_rules name of
        None \<Rightarrow> Inl (KeyError (''unable to parse sample from '' @ name))
      | Some tag \<Rightarrow> Inr tag)"
    by (rule parse_filename_sample_rules)
  show "parse_filename_gihyeok_sample name =
     (case first_match sample_rules_gihyeok name of
        None \<Rightarrow> Inl (KeyError (''unable to parse sample from '' @ name))
      | Some tag \<Rightarrow> Inr tag)"
    by (rule parse_filename_gihyeok_sample_rules)
  show "specific_first sample_rules" using specific_first_tables by blast
  show "specific_first sample_rules_gihyeok" using specific_first_tables by blast
qed

text \<open>A file name of each of the two data sets that carries the specific token.\<close>

theorem sample_tie_break_witness:
  "contains ''712_Al_free'' ''BM_712_Al_free_2nd_48V.txt'' \<and>
   \<not> contains ''622'' ''BM_712_Al_free_2nd_48V.txt'' \<and>
   \<not> contains ''NCMA'' ''BM_712_Al_free_2nd_48V.txt'' \<and>
   parse_filename_sample ''BM_712_Al_free_2nd_48V.txt'' = Inr ''BM_NCM712'' \<and>
   parse_filename_sample ''BM_712_Al_free_2nd_48V.txt'' \<noteq> Inr ''BM_NCM712-Al'' \<and>
   contains ''712_Al-doped'' ''NCM712_Al-doped_Ni.txt'' \<and>
   \<not> contains ''622'' ''NCM712_Al-doped_Ni.txt'' \<and>
   \<not> contains ''NCMA'' ''NCM712_Al-doped_Ni.txt'' \<and>
   parse_filename_gihyeok_sample ''NCM712_Al-doped_Ni.txt'' = Inr ''BM_NCM712-Al'' \<and>
   parse_filename_gihyeok_sample ''NCM712_Al-doped_Ni.txt'' \<noteq> Inr ''BM_NCM712''"
proof -
  have a: "contains ''712_Al_free'' ''BM_712_Al_free_2nd_48V.txt'' \<and>
    \<not> contains ''622'' ''BM_712_Al_free_2nd_48V.txt'' \<and>
    \<not> contains ''NCMA'' ''BM_712_Al_free_2nd_48V.txt''"
    by simp
  have b: "contains ''712_Al-doped'' ''NCM712_Al-doped_Ni.txt'' \<and>
    \<not> contains ''622'' ''NCM712_Al-doped_Ni.txt'' \<and>
    \<not> contains ''NCMA'' ''NCM712_Al-doped_Ni.txt''"
    by simp
  show ?thesis
    using a b sample_tie_break[of "''BM_712_Al_free_2nd_48V.txt''"]
      sample_tie_break[of "''NCM712_Al-doped_Ni.txt''"]
    by blast
qed

text \<open>
  An input with both \<open>712_Al_free\<close> and \<open>712\<close> that does not resolve to the specific
  token's tag: the earlier token \<open>622\<close> wins.
\<close>

theorem sample_tie_break_earlier_token_counterexample:
  "contains ''712_Al_free'' ''NCM622_vs_712_Al_free_1st_43V.txt'' \<and>
   contains ''712'' ''NCM622_vs_712_Al_free_1st_43V.txt'' \<and>
   parse_filename ''NCM622_vs_712_Al_free_1st_43V.txt'' =
     Inr (''BM_NCM622'', Some (charge_literal 1 4.3 ''C'')) \<and>
   ''BM_NCM622'' \<noteq> ''BM_NCM712''"
  by (simp add: eval_defs)

section \<open>Cycle resolution\<close>





section \<open>Misspelled sample tokens of \<^verbatim>\<open>parse_filename_nslsii\<close>\<close>

lemma parse_filename_nslsii_Inr_sample:
  "parse_filename_nslsii name = Inr (sample, charge) \<Longrightarrow>
     parse_filename_nslsii_sample name = Inr sample"
  by (auto simp: parse_filename_nslsii_def split: sum.splits)

text \<open>
  Claim C10, as amended: \<^verbatim>\<open>parse_filename_nslsii\<close> also accepts the misspelled tokens
  \<open>NMCA\<close> and \<open>721\<close>, which \<^verbatim>\<open>parse_filename\<close> rejects. Every input that contains
  \<open>NMCA\<close> and not the earlier token \<open>622\<close> resolves to \<open>BM_NCMA\<close>, and every input that
  contains \<open>721\<close> and none of the earlier tokens \<open>622\<close>, \<open>NCMA\<close>, \<open>NMCA\<close> resolves to
  \<open>BM_NCM712-Al\<close>, exactly as the correctly spelled \<open>NCMA\<close> and \<open>712\<close> do under the
  same conditions. The sample so resolved is the one the function returns.
\<close>

theorem nslsii_misspelled_tokens:
  "(contains ''NMCA'' name \<and> \<not> contains ''622'' name \<longrightarrow>
      parse_filename_nslsii_sample name = Inr ''BM_NCMA'') \<and>
   (contains ''NCMA'' name \<and> \<not> contains ''622'' name \<longrightarrow>
      parse_filename_nslsii_sample name = Inr ''BM_NCMA'') \<and>
   (contains ''721'' name \<and> \<not> contains ''622'' name \<and> \<not> contains ''NCMA'' name \<and>
    \<not> contains ''NMCA'' name \<longrightarrow>
      parse_filename_nslsii_sample name = Inr ''BM_NCM712-Al'') \<and>
   (contains ''712'' name \<and> \<not> contains ''622'' name \<and> \<not> contains ''NCMA'' name \<and>
    \<not> contains ''NMCA'' name \<longrightarrow>
      parse_filename_nslsii_sample name = Inr ''BM_NCM712-Al'') \<and>
   (parse_filename_nslsii name = Inr (sample, charge) \<longrightarrow>
      parse_filename_nslsii_sample name = Inr sample) \<and>
   parse_filename_nslsii_sample name =
     (case first_match sample_rules_nslsii name of
        None \<Rightarrow> Inl (KeyError (''unable to parse sample from '' @ name))
      | Some tag \<Rightarrow> Inr tag) \<and>
   parse_filename_sample ''NMCA_1st_3V.txt'' =
     Inl (KeyError ''unable to parse sample from NMCA_1st_3V.txt'') \<and>
   parse_filename_sample ''721_1st_3V.txt'' =
     Inl (KeyError ''unable to parse sample from 721_1st_3V.txt'')"
proof (intro conjI impI)
  show "parse_filename_nslsii_sample name = Inr ''BM_NCMA''"
    if "contains ''NMCA'' name \<and> \<not> contains ''622'' name"
    using that by (simp add: parse_filename_nslsii_sample_def)
  show "parse_filename_nslsii_sample name = Inr ''BM_NCMA''"
    if "contains ''NCMA'' name \<and> \<not> contains ''622'' name"
    using that by (simp add: parse_filename_nslsii_sample_def)
  show "parse_filename_nslsii_sample name = Inr ''BM_NCM712-Al''"
    if "contains ''721'' name \<and> \<not> contains ''622'' name \<and> \<not> contains ''NCMA'' name \<and>
        \<not> contains ''NMCA'' name"
    using that by (simp add: parse_filename_nslsii_sample_def)
  show "parse_filename_nslsii_sample name = Inr ''BM_NCM712-Al''"
    if "contains ''712'' name \<and> \<not> contains ''622'' name \<and> \<not> contains ''NCMA'' name \<and>
        \<not> contains ''NMCA'' name"
    using that by (simp add: parse_filename_nslsii_sample_def)
  show "parse_filename_nslsii_sample name = Inr sample"
    if "parse_filename_nslsii name = Inr (sample, charge)"
    using that by (rule parse_filename_nslsii_Inr_sample)
  show "parse_filename_nslsii_sample name =
     (case first_match sample_rules_nslsii name of
        None \<Rightarrow> Inl (KeyError (''unable to parse sample from '' @ name))
      | Some tag \<Rightarrow> Inr tag)"
    by (rule parse_filename_nslsii_sample_rules)
  show "parse_filename_sample ''NMCA_1st_3V.txt'' =
     Inl (KeyError ''unable to parse sample from NMCA_1st_3V.txt'')"
    by (simp add: parse_filename_sample_def)
  show "parse_filename_sample ''721_1st_3V.txt'' =
     Inl (KeyError ''unable to parse sample from 721_1st_3V.txt'')"
    by (simp add: parse_filename_sample_def)
qed

text \<open>One file name with each misspelled token.\<close>

theorem nslsii_misspelled_tokens_witness:
  "contains ''NMCA'' ''NMCA_1st_4_3.txt'' \<and> \<not> contains ''622'' ''NMCA_1st_4_3.txt'' \<and>
   parse_filename_nslsii_sample ''NMCA_1st_4_3.txt'' = Inr ''BM_NCMA'' \<and>
   contains ''721'' ''721_2nd_30DC.txt'' \<and> \<not> contains ''622'' ''721_2nd_30DC.txt'' \<and>
   \<not> contains ''NCMA'' ''721_2nd_30DC.txt'' \<and> \<not> contains ''NMCA'' ''721_2nd_30DC.txt'' \<and>
   parse_filename_nslsii_sample ''721_2nd_30DC.txt'' = Inr ''BM_NCM712-Al'' \<and>
   parse_filename_nslsii ''721_2nd_30DC.txt'' =
     Inr (''BM_NCM712-Al'', Some (charge_literal 2 3.0 ''DC''))"
proof -
  have a: "contains ''NMCA'' ''NMCA_1st_4_3.txt'' \<and> \<not> contains ''622'' ''NMCA_1st_4_3.txt''"
    by simp
  have b: "contains ''721'' ''721_2nd_30DC.txt'' \<and> \<not> contains ''622'' ''721_2nd_30DC.txt'' \<and>
    \<not> contains ''NCMA'' ''721_2nd_30DC.txt'' \<and> \<not> contains ''NMCA'' ''721_2nd_30DC.txt''"
    by simp
  have c: "parse_filename_nslsii ''721_2nd_30DC.txt'' =
     Inr (''BM_NCM712-Al'', Some (charge_literal 2 3.0 ''DC''))"
    by (simp add: eval_defs)
  have r1: "parse_filename_nslsii_sample ''NMCA_1st_4_3.txt'' = Inr ''BM_NCMA''"
    using a nslsii_misspelled_tokens[of "''NMCA_1st_4_3.txt''"] by blast
  have r2: "parse_filename_nslsii_sample ''721_2nd_30DC.txt'' = Inr ''BM_NCM712-Al''"
    using b nslsii_misspelled_tokens[of "''721_2nd_30DC.txt''"] by blast
  show ?thesis using a b c r1 r2 by blast
qed

text \<open>An input that contains \<open>NMCA\<close> and resolves to \<open>BM_NCM622\<close>.\<close>

theorem nslsii_NMCA_after_622_counterexample:
  "contains ''NMCA'' ''622_NMCA_pristine.txt'' \<and>
   parse_filename_nslsii ''622_NMCA_pristine.txt'' =
     Inr (''BM_NCM622'', Some (charge_literal 0 0.0 ''DC'')) \<and>
   ''BM_NCM622'' \<noteq> ''BM_NCMA''"
  by (simp add: eval_defs)

section \<open>Unmatched inputs\<close>

lemma parse_filename_no_sample:
  assumes "\<not> contains ''622'' name" "\<not> contains ''NCMA'' name" "\<not> contains ''712'' name"
    and "\<not> contains ''811'' name"
  shows "parse_filename name = Inl (KeyError (''unable to parse sample from '' @ name))"
  using assms contains_712_Al_free[of name]
  by (auto simp: parse_filename_def parse_filename_sample_def)

lemma parse_filename_unrecognized_marker:
  assumes "parse_filename_sample name = Inr sample" "\<not> contains ''Pristine'' name"
    and "cycle_marker name = Some cycle" "re_search_dV name = Some m"
    and "m \<notin> {''43V'', ''48V'', ''3V''}"
  shows "parse_filename name = Inl (KeyError (''unable to parse voltage from '' @ m))"
  using parse_filename_at_voltage[OF assms(1-3)] assms(4,5)
  by (simp add: parse_filename_voltage_def)

lemma parse_filename_gihyeok_no_sample:
  assumes "\<not> contains ''622'' name" "\<not> contains ''NCMA'' name" "\<not> contains ''712'' name"
    and "\<not> contains ''811'' name"
  shows "parse_filename_gihyeok name = Inl (KeyError (''unable to parse sample from '' @ name))"
  using assms contains_712_Al_doped[of name]
  by (auto simp: parse_filename_gihyeok_def parse_filename_gihyeok_sample_def)

lemma parse_filename_gihyeok_no_symbol:
  assumes "parse_filename_gihyeok_sample name = Inr sample"
    and "\<not> contains ''Co'' name" "\<not> contains ''Mn'' name" "\<not> contains ''Ni'' name"
    and "\<not> contains ''O'' name"
  shows "parse_filename_gihyeok name = Inl (KeyError (''unable to parse symbol from '' @ name))"
  using assms by (simp add: parse_filename_gihyeok_def parse_filename_gihyeok_symbol_def)

lemma parse_filename_nslsii_no_sample:
  assumes "\<not> contains ''622'' name" "\<not> contains ''NCMA'' name" "\<not> contains ''NMCA'' name"
    and "\<not> contains ''712'' name" "\<not> contains ''721'' name" "\<not> contains ''811'' name"
  shows "parse_filename_nslsii name = Inl (KeyError (''unable to parse sample from '' @ name))"
  using assms by (simp add: parse_filename_nslsii_def parse_filename_nslsii_sample_def)

lemma parse_filename_nslsii_no_voltage:
  assumes "parse_filename_nslsii_sample name = Inr sample"
    and "\<not> contains ''pristine'' name" "\<not> contains ''Pristine'' name"
    and "parse_filename_nslsii_voltage name = Inl e"
  shows "parse_filename_nslsii name = Inl (KeyError (''unable to parse voltage from '' @ name))"
  using assms
  by (auto simp: parse_filename_nslsii_def parse_filename_nslsii_charge_def
      parse_filename_nslsii_voltage_def Let_def split: if_splits)

lemma parse_filename_nslsii_voltage_unmatched:
  assumes "\<not> contains ''4_3'' name" "\<not> contains ''43C'' name" "\<not> contains ''4_8'' name"
    and "\<not> contains ''48C'' name" "\<not> contains ''3V'' name" "\<not> contains ''3_0'' name"
    and "\<not> contains ''30DC'' name"
  shows "parse_filename_nslsii_voltage name =
     Inl (KeyError (''unable to parse voltage from '' @ name))"
  using assms by (simp add: parse_filename_nslsii_voltage_def)

lemma column_charge_gihyeok_unmatched:
  "(\<not> contains ''Pristine'' column \<and> cycle_marker column = None \<longrightarrow>
      column_charge_gihyeok column =
        Inl (KeyError (''unable to parse cycle from '' @ column))) \<and>
   (\<not> contains ''Pristine'' column \<and> cycle_marker column = Some cycle \<and>
    \<not> contains ''3.0'' column \<and> \<not> contains ''4.8'' column \<longrightarrow>
      column_charge_gihyeok column =
        Inl (KeyError (''unable to parse voltage from '' @ column)))"
  by (simp add: column_charge_gihyeok_def column_voltage_gihyeok_def)

lemma column_charge_oxygen_unmatched:
  "(\<not> contains ''Pristine'' column \<and> cycle_marker column = None \<longrightarrow>
      column_charge_oxygen column =
        Inl (KeyError (''unable to parse cycle from '' @ column))) \<and>
   (\<not> contains ''Pristine'' column \<and> cycle_marker column = Some cycle \<and>
    \<not> contains ''3.0'' column \<and> \<not> contains ''4.3'' column \<and> \<not> contains ''4.8'' column \<longrightarrow>
      column_charge_oxygen column =
        Inl (KeyError (''unable to parse voltage from '' @ column)))"
  by (simp add: column_charge_oxygen_def column_voltage_oxygen_def)

lemma get_sample_charge_None_unmatched:
  "get_sample_charge name = None \<longleftrightarrow>
     (\<forall>(key, val)\<in>set file_to_sample_map. capitalize (split_dash_first name) \<notin> set val) \<or>
     (\<forall>(key, val)\<in>set file_to_charge_map. capitalize (split_dash_first name) \<notin> set val)"
  by (simp only: get_sample_charge_None_iff first_key_None_iff)

lemma get_sample_charge_Some:
  "get_sample_charge name = Some r \<Longrightarrow>
     \<exists>s c. first_key file_to_sample_map (capitalize (split_dash_first name)) = Some s \<and>
           first_key file_to_charge_map (capitalize (split_dash_first name)) = Some c \<and>
           r = s @ ''_'' @ c"
  by (auto simp: get_sample_charge_def Let_def split: option.splits)

text \<open>
  What the classifiers other than \<^verbatim>\<open>get_sample_charge\<close> do on an unmatched input: in
  \<^verbatim>\<open>parse_filename\<close>, \<^verbatim>\<open>parse_filename_gihyeok\<close>, \<^verbatim>\<open>parse_filename_nslsii\<close> and the
  two per-column loops, an input that reaches a stage and matches none of its tokens
  raises \<^verbatim>\<open>KeyError\<close> with a message naming the stage (sample, cycle, voltage, symbol)
  and the offending text. \<^verbatim>\<open>get_sample_charge\<close> returns \<^verbatim>\<open>None\<close> exactly when the
  first \<open>-\<close>-separated token of the name, capitalized, is in no list of its sample table
  or in no list of its charge table.
\<close>

lemma unmatched_cases:
  "(\<not> contains ''622'' name \<and> \<not> contains ''NCMA'' name \<and> \<not> contains ''712'' name \<and>
    \<not> contains ''811'' name \<longrightarrow>
      parse_filename name = Inl (KeyError (''unable to parse sample from '' @ name)) \<and>
      parse_filename_gihyeok name = Inl (KeyError (''unable to parse sample from '' @ name))) \<and>
   (\<not> contains ''622'' name \<and> \<not> contains ''NCMA'' name \<and> \<not> contains ''NMCA'' name \<and>
    \<not> contains ''712'' name \<and> \<not> contains ''721'' name \<and> \<not> contains ''811'' name \<longrightarrow>
      parse_filename_nslsii name = Inl (KeyError (''unable to parse sample from '' @ name))) \<and>
   (parse_filename_sample name = Inr sample \<and> \<not> contains ''Pristine'' name \<and>
    cycle_marker name = None \<longrightarrow>
      parse_filename name = Inl (KeyError (''unable to parse cycle from '' @ name))) \<and>
   (parse_filename_sample name = Inr sample \<and> \<not> contains ''Pristine'' name \<and>
    cycle_marker name = Some cycle \<and> re_search_dV name = Some m \<and>
    m \<notin> {''43V'', ''48V'', ''3V''} \<longrightarrow>
      parse_filename name = Inl (KeyError (''unable to parse voltage from '' @ m))) \<and>
   (parse_filename_gihyeok_sample name = Inr sample \<and> \<not> contains ''Co'' name \<and>
    \<not> contains ''Mn'' name \<and> \<not> contains ''Ni'' name \<and> \<not> contains ''O'' name \<longrightarrow>
      parse_filename_gihyeok name = Inl (KeyError (''unable to parse symbol from '' @ name))) \<and>
   (parse_filename_nslsii_sample name = Inr sample \<and>
    \<not> contains ''pristine'' name \<and> \<not> contains ''Pristine'' name \<and>
    \<not> contains ''4_3'' name \<and> \<not> contains ''43C'' name \<and> \<not> contains ''4_8'' name \<and>
    \<not> contains ''48C'' name \<and> \<not> contains ''3V'' name \<and> \<not> contains ''3_0'' name \<and>
    \<not> contains ''30DC'' name \<longrightarrow>
      parse_filename_nslsii name = Inl (KeyError (''unable to parse voltage from '' @ name))) \<and>
   (\<not> contains ''Pristine'' name \<and> cycle_marker name = None \<longrightarrow>
      column_charge_gihyeok name = Inl (KeyError (''unable to parse cycle from '' @ name)) \<and>
      column_charge_oxygen name = Inl (KeyError (''unable to parse cycle from '' @ name))) \<and>
   (\<not> contains ''Pristine'' name \<and> cycle_marker name = Some cycle \<and>
    \<not> contains ''3.0'' name \<and> \<not> contains ''4.8'' name \<longrightarrow>
      column_charge_gihyeok name = Inl (KeyError (''unable to parse voltage from '' @ name))) \<and>
   (\<not> contains ''Pristine'' name \<and> cycle_marker name = Some cycle \<and>
    \<not> contains ''3.0'' name \<and> \<not> contains ''4.3'' name \<and> \<not> contains ''4.8'' name \<longrightarrow>
      column_charge_oxygen name = Inl (KeyError (''unable to parse voltage from '' @ name))) \<and>
   (get_sample_charge name = None \<longleftrightarrow>
      (\<forall>(key, val)\<in>set file_to_sample_map. capitalize (split_dash_first name) \<notin> set val) \<or>
      (\<forall>(key, val)\<in>set file_to_charge_map. capitalize (split_dash_first name) \<notin> set val)) \<and>
   (get_sample_charge name = Some r \<longrightarrow>
      (\<exists>s c. first_key file_to_sample_map (capitalize (split_dash_first name)) = Some s \<and>
             first_key file_to_charge_map (capitalize (split_dash_first name)) = Some c \<and>
             r = s @ ''_'' @ c))"
proof (intro conjI impI)
  assume a: "\<not> contains ''622'' name \<and> \<not> contains ''NCMA'' name \<and> \<not> contains ''712'' name \<and>
    \<not> contains ''811'' name"
  show "parse_filename name = Inl (KeyError (''unable to parse sample from '' @ name))"
    using a by (simp add: parse_filename_no_sample)
  show "parse_filename_gihyeok name = Inl (KeyError (''unable to parse sample from '' @ name))"
    using a by (simp add: parse_filename_gihyeok_no_sample)
next
  assume "\<not> contains ''622'' name \<and> \<not> contains ''NCMA'' name \<and> \<not> contains ''NMCA'' name \<and>
    \<not> contains ''712'' name \<and> \<not> contains ''721'' name \<and> \<not> contains ''811'' name"
  then show "parse_filename_nslsii name =
      Inl (KeyError (''unable to parse sample from '' @ name))"
    by (simp add: parse_filename_nslsii_no_sample)
next
  assume "parse_filename_sample name = Inr sample \<and> \<not> contains ''Pristine'' name \<and>
    cycle_marker name = None"
  then show "parse_filename name = Inl (KeyError (''unable to parse cycle from '' @ name))"
    using parse_filename_no_cycle[of name sample] by blast
next
  assume "parse_filename_sample name = Inr sample \<and> \<not> contains ''Pristine'' name \<and>
    cycle_marker name = Some cycle \<and> re_search_dV name = Some m \<and>
    m \<notin> {''43V'', ''48V'', ''3V''}"
  then show "parse_filename name = Inl (KeyError (''unable to parse voltage from '' @ m))"
    using parse_filename_unrecognized_marker[of name sample cycle m] by blast
next
  assume "parse_filename_gihyeok_sample name = Inr sample \<and> \<not> contains ''Co'' name \<and>
    \<not> contains ''Mn'' name \<and> \<not> contains ''Ni'' name \<and> \<not> contains ''O'' name"
  then show "parse_filename_gihyeok name =
      Inl (KeyError (''unable to parse symbol from '' @ name))"
    using parse_filename_gihyeok_no_symbol[of name sample] by blast
next
  assume a: "parse_filename_nslsii_sample name = Inr sample \<and>
    \<not> contains ''pristine'' name \<and> \<not> contains ''Pristine'' name \<and>
    \<not> contains ''4_3'' name \<and> \<not> contains ''43C'' name \<and> \<not> contains ''4_8'' name \<and>
    \<not> contains ''48C'' name \<and> \<not> contains ''3V'' name \<and> \<not> contains ''3_0'' name \<and>
    \<not> contains ''30DC'' name"
  then have "parse_filename_nslsii_voltage name =
      Inl (KeyError (''unable to parse voltage from '' @ name))"
    by (simp add: parse_filename_nslsii_voltage_unmatched)
  then show "parse_filename_nslsii name =
      Inl (KeyError (''unable to parse voltage from '' @ name))"
    using a parse_filename_nslsii_no_voltage[of name sample] by blast
next
  assume a: "\<not> contains ''Pristine'' name \<and> cycle_marker name = None"
  show "column_charge_gihyeok name = Inl (KeyError (''unable to parse cycle from '' @ name))"
    using a column_charge_gihyeok_unmatched[of name] by blast
  show "column_charge_oxygen name = Inl (KeyError (''unable to parse cycle from '' @ name))"
    using a column_charge_oxygen_unmatched[of name] by blast
next
  assume "\<not> contains ''Pristine'' name \<and> cycle_marker name = Some cycle \<and>
    \<not> contains ''3.0'' name \<and> \<not> contains ''4.8'' name"
  then show "column_charge_gihyeok name =
      Inl (KeyError (''unable to parse voltage from '' @ name))"
    using column_charge_gihyeok_unmatched[of name cycle] by blast
next
  assume "\<not> contains ''Pristine'' name \<and> cycle_marker name = Some cycle \<and>
    \<not> contains ''3.0'' name \<and> \<not> contains ''4.3'' name \<and> \<not> contains ''4.8'' name"
  then show "column_charge_oxygen name =
      Inl (KeyError (''unable to parse voltage from '' @ name))"
    using column_charge_oxygen_unmatched[of name cycle] by blast
next
  show "get_sample_charge name = None \<longleftrightarrow>
      (\<forall>(key, val)\<in>set file_to_sample_map. capitalize (split_dash_first name) \<notin> set val) \<or>
      (\<forall>(key, val)\<in>set file_to_charge_map. capitalize (split_dash_first name) \<notin> set val)"
    by (rule get_sample_charge_None_unmatched)
next
  assume "get_sample_charge name = Some r"
  then show "\<exists>s c. first_key file_to_sample_map (capitalize (split_dash_first name)) = Some s \<and>
             first_key file_to_charge_map (capitalize (split_dash_first name)) = Some c \<and>
             r = s @ ''_'' @ c"
    by (rule get_sample_charge_Some)
qed

text \<open>
  These facts at one unmatched input for each stage of each variant, and at two Sigscan
  stems, one in no table and one in both.
\<close>

lemma unmatched_cases_at_inputs:
  "\<not> contains ''622'' ''Ni_metal_ref.txt'' \<and> \<not> contains ''NCMA'' ''Ni_metal_ref.txt'' \<and>
   \<not> contains ''712'' ''Ni_metal_ref.txt'' \<and> \<not> contains ''811'' ''Ni_metal_ref.txt'' \<and>
   parse_filename ''Ni_metal_ref.txt'' =
     Inl (KeyError ''unable to parse sample from Ni_metal_ref.txt'') \<and>
   parse_filename_gihyeok ''Ni_metal_ref.txt'' =
     Inl (KeyError ''unable to parse sample from Ni_metal_ref.txt'') \<and>
   parse_filename_nslsii ''Ni_metal_ref.txt'' =
     Inl (KeyError ''unable to parse sample from Ni_metal_ref.txt'') \<and>
   parse_filename ''NCMA_48V.txt'' = Inl (KeyError ''unable to parse cycle from NCMA_48V.txt'') \<and>
   re_search_dV ''BM_622_1st_143V.txt'' = Some ''143V'' \<and>
   parse_filename ''BM_622_1st_143V.txt'' =
     Inl (KeyError ''unable to parse voltage from 143V'') \<and>
   parse_filename_gihyeok ''622_scan.txt'' =
     Inl (KeyError ''unable to parse symbol from 622_scan.txt'') \<and>
   parse_filename_nslsii ''622_1st.txt'' =
     Inl (KeyError ''unable to parse voltage from 622_1st.txt'') \<and>
   column_charge_gihyeok ''Ni_4.8'' = Inl (KeyError ''unable to parse cycle from Ni_4.8'') \<and>
   column_charge_oxygen ''Ni_4.8'' = Inl (KeyError ''unable to parse cycle from Ni_4.8'') \<and>
   column_charge_gihyeok ''Ni_1st_5.0'' =
     Inl (KeyError ''unable to parse voltage from Ni_1st_5.0'') \<and>
   column_charge_oxygen ''Ni_1st_5.0'' =
     Inl (KeyError ''unable to parse voltage from Ni_1st_5.0'') \<and>
   first_key file_to_sample_map (capitalize (split_dash_first ''sigscan70000-0001'')) = None \<and>
   get_sample_charge ''sigscan70000-0001'' = None \<and>
   get_sample_charge ''sigscan71294-0001'' = Some ''BM_NCM712_Pristine'' \<and>
   first_key file_to_sample_map (capitalize (split_dash_first ''sigscan71294-0001'')) =
     Some ''BM_NCM712'' \<and>
   first_key file_to_charge_map (capitalize (split_dash_first ''sigscan71294-0001'')) =
     Some ''Pristine''"
proof -
  note c1 = conjunct1
    and c2 = conjunct2[THEN conjunct1]
    and c3 = conjunct2[THEN conjunct2, THEN conjunct1]
    and c4 = conjunct2[THEN conjunct2, THEN conjunct2, THEN conjunct1]
    and c5 = conjunct2[THEN conjunct2, THEN conjunct2, THEN conjunct2, THEN conjunct1]
    and c6 = conjunct2[THEN conjunct2, THEN conjunct2, THEN conjunct2, THEN conjunct2,
      THEN conjunct1]
    and c7 = conjunct2[THEN conjunct2, THEN conjunct2, THEN conjunct2, THEN conjunct2,
      THEN conjunct2, THEN conjunct1]
    and c8 = conjunct2[THEN conjunct2, THEN conjunct2, THEN conjunct2, THEN conjunct2,
      THEN conjunct2, THEN conjunct2, THEN conjunct1]
    and c9 = conjunct2[THEN conjunct2, THEN conjunct2, THEN conjunct2, THEN conjunct2,
      THEN conjunct2, THEN conjunct2, THEN conjunct2, THEN conjunct1]
    and c10 = conjunct2[THEN conjunct2, THEN conjunct2, THEN conjunct2, THEN conjunct2,
      THEN conjunct2, THEN conjunct2, THEN conjunct2, THEN conjunct2, THEN conjunct1]
    and c11 = conjunct2[THEN conjunct2, THEN conjunct2, THEN conjunct2, THEN conjunct2,
      THEN conjunct2, THEN conjunct2, THEN conjunct2, THEN conjunct2, THEN conjunct2]
  have a: "\<not> contains ''622'' ''Ni_metal_ref.txt'' \<and> \<not> contains ''NCMA'' ''Ni_metal_ref.txt'' \<and>
    \<not> contains ''712'' ''Ni_metal_ref.txt'' \<and> \<not> contains ''811'' ''Ni_metal_ref.txt''"
    by simp
  have a': "\<not> contains ''622'' ''Ni_metal_ref.txt'' \<and> \<not> contains ''NCMA'' ''Ni_metal_ref.txt'' \<and>
    \<not> contains ''NMCA'' ''Ni_metal_ref.txt'' \<and> \<not> contains ''712'' ''Ni_metal_ref.txt'' \<and>
    \<not> contains ''721'' ''Ni_metal_ref.txt'' \<and> \<not> contains ''811'' ''Ni_metal_ref.txt''"
    by simp
  have r1: "parse_filename ''Ni_metal_ref.txt'' =
     Inl (KeyError ''unable to parse sample from Ni_metal_ref.txt'') \<and>
   parse_filename_gihyeok ''Ni_metal_ref.txt'' =
     Inl (KeyError ''unable to parse sample from Ni_metal_ref.txt'')"
    using unmatched_cases[of "''Ni_metal_ref.txt''", THEN c1, THEN mp, OF a] by simp
  have r2: "parse_filename_nslsii ''Ni_metal_ref.txt'' =
     Inl (KeyError ''unable to parse sample from Ni_metal_ref.txt'')"
    using unmatched_cases[of "''Ni_metal_ref.txt''", THEN c2, THEN mp, OF a'] by simp
  have h3: "parse_filename_sample ''NCMA_48V.txt'' = Inr ''BM_NCMA'' \<and>
    \<not> contains ''Pristine'' ''NCMA_48V.txt'' \<and> cycle_marker ''NCMA_48V.txt'' = None"
    by (simp add: parse_filename_sample_def cycle_marker_def)
  have r3: "parse_filename ''NCMA_48V.txt'' =
     Inl (KeyError ''unable to parse cycle from NCMA_48V.txt'')"
    using unmatched_cases[of "''NCMA_48V.txt''" "''BM_NCMA''", THEN c3, THEN mp, OF h3] by simp
  have h4: "parse_filename_sample ''BM_622_1st_143V.txt'' = Inr ''BM_NCM622'' \<and>
    \<not> contains ''Pristine'' ''BM_622_1st_143V.txt'' \<and>
    cycle_marker ''BM_622_1st_143V.txt'' = Some 1 \<and>
    re_search_dV ''BM_622_1st_143V.txt'' = Some ''143V'' \<and>
    ''143V'' \<notin> {''43V'', ''48V'', ''3V''}"
    by (simp add: parse_filename_sample_def cycle_marker_def match_dV_def isdigit_def)
  have r4: "parse_filename ''BM_622_1st_143V.txt'' =
     Inl (KeyError ''unable to parse voltage from 143V'')"
    using unmatched_cases[of "''BM_622_1st_143V.txt''" "''BM_NCM622''" 1 "''143V''",
        THEN c4, THEN mp, OF h4]
    by simp
  have h4': "re_search_dV ''BM_622_1st_143V.txt'' = Some ''143V''"
    using h4 by (elim conjE)
  have h5: "parse_filename_gihyeok_sample ''622_scan.txt'' = Inr ''BM_NCM622'' \<and>
    \<not> contains ''Co'' ''622_scan.txt'' \<and> \<not> contains ''Mn'' ''622_scan.txt'' \<and>
    \<not> contains ''Ni'' ''622_scan.txt'' \<and> \<not> contains ''O'' ''622_scan.txt''"
    by (simp add: parse_filename_gihyeok_sample_def)
  have r5: "parse_filename_gihyeok ''622_scan.txt'' =
     Inl (KeyError ''unable to parse symbol from 622_scan.txt'')"
    using unmatched_cases[of "''622_scan.txt''" "''BM_NCM622''", THEN c5, THEN mp, OF h5]
    by simp
  have h6: "parse_filename_nslsii_sample ''622_1st.txt'' = Inr ''BM_NCM622'' \<and>
    \<not> contains ''pristine'' ''622_1st.txt'' \<and> \<not> contains ''Pristine'' ''622_1st.txt'' \<and>
    \<not> contains ''4_3'' ''622_1st.txt'' \<and> \<not> contains ''43C'' ''622_1st.txt'' \<and>
    \<not> contains ''4_8'' ''622_1st.txt'' \<and> \<not> contains ''48C'' ''622_1st.txt'' \<and>
    \<not> contains ''3V'' ''622_1st.txt'' \<and> \<not> contains ''3_0'' ''622_1st.txt'' \<and>
    \<not> contains ''30DC'' ''622_1st.txt''"
    by (simp add: parse_filename_nslsii_sample_def)
  have r6: "parse_filename_nslsii ''622_1st.txt'' =
     Inl (KeyError ''unable to parse voltage from 622_1st.txt'')"
    using unmatched_cases[of "''622_1st.txt''" "''BM_NCM622''", THEN c6, THEN mp, OF h6]
    by simp
  have h7: "\<not> contains ''Pristine'' ''Ni_4.8'' \<and> cycle_marker ''Ni_4.8'' = None"
    by (simp add: cycle_marker_def)
  have r7: "column_charge_gihyeok ''Ni_4.8'' =
      Inl (KeyError ''unable to parse cycle from Ni_4.8'') \<and>
    column_charge_oxygen ''Ni_4.8'' = Inl (KeyError ''unable to parse cycle from Ni_4.8'')"
    using unmatched_cases[of "''Ni_4.8''", THEN c7, THEN mp, OF h7] by simp
  have h8: "\<not> contains ''Pristine'' ''Ni_1st_5.0'' \<and> cycle_marker ''Ni_1st_5.0'' = Some 1 \<and>
    \<not> contains ''3.0'' ''Ni_1st_5.0'' \<and> \<not> contains ''4.8'' ''Ni_1st_5.0''"
    by (simp add: cycle_marker_def)
  have r8: "column_charge_gihyeok ''Ni_1st_5.0'' =
     Inl (KeyError ''unable to parse voltage from Ni_1st_5.0'')"
    using unmatched_cases[of "''Ni_1st_5.0''" _ 1, THEN c8, THEN mp, OF h8] by simp
  have h9: "\<not> contains ''Pristine'' ''Ni_1st_5.0'' \<and> cycle_marker ''Ni_1st_5.0'' = Some 1 \<and>
    \<not> contains ''3.0'' ''Ni_1st_5.0'' \<and> \<not> contains ''4.3'' ''Ni_1st_5.0'' \<and>
    \<not> contains ''4.8'' ''Ni_1st_5.0''"
    by (simp add: cycle_marker_def)
  have r9: "column_charge_oxygen ''Ni_1st_5.0'' =
     Inl (KeyError ''unable to parse voltage from Ni_1st_5.0'')"
    using unmatched_cases[of "''Ni_1st_5.0''" _ 1, THEN c9, THEN mp, OF h9] by simp
  have k0: "capitalize (split_dash_first ''sigscan70000-0001'') = ''Sigscan70000''"
    by (simp add: split_dash_first_def upper_def lower_def)
  have k1: "first_key file_to_sample_map ''Sigscan70000'' = None"
    by (simp add: file_to_sample_map_def)
  then have k2: "\<forall>(key, val)\<in>set file_to_sample_map.
      capitalize (split_dash_first ''sigscan70000-0001'') \<notin> set val"
    unfolding k0 by (simp only: first_key_None_iff)
  note r10 = unmatched_cases[of "''sigscan70000-0001''", THEN c10, THEN iffD2, OF disjI1, OF k2]
  have k1': "first_key file_to_sample_map
      (capitalize (split_dash_first ''sigscan70000-0001'')) = None"
    unfolding k0 by (fact k1)
  have e0: "capitalize (split_dash_first ''sigscan71294-0001'') = ''Sigscan71294''"
    by (simp add: split_dash_first_def upper_def lower_def)
  have e1: "first_key file_to_sample_map ''Sigscan71294'' = Some ''BM_NCM712''"
    by (simp add: file_to_sample_map_def)
  have e2: "first_key file_to_charge_map ''Sigscan71294'' = Some ''Pristine''"
    by (simp add: file_to_charge_map_def)
  have d: "get_sample_charge ''sigscan71294-0001'' = Some ''BM_NCM712_Pristine''"
    by (simp add: get_sample_charge_def Let_def e0 e1 e2)
  obtain s c where
    sc: "first_key file_to_sample_map (capitalize (split_dash_first ''sigscan71294-0001'')) =
           Some s \<and>
         first_key file_to_charge_map (capitalize (split_dash_first ''sigscan71294-0001'')) =
           Some c \<and> ''BM_NCM712_Pristine'' = s @ ''_'' @ c"
    using unmatched_cases[of "''sigscan71294-0001''" _ _ _ "''BM_NCM712_Pristine''",
        THEN c11, THEN mp, OF d]
    by (elim exE)
  have s: "s = ''BM_NCM712''" and c: "c = ''Pristine''"
    using sc unfolding e0 e1 e2 by simp_all
  have r11: "first_key file_to_sample_map
      (capitalize (split_dash_first ''sigscan71294-0001'')) = Some ''BM_NCM712'' \<and>
    first_key file_to_charge_map
      (capitalize (split_dash_first ''sigscan71294-0001'')) = Some ''Pristine''"
    using sc unfolding s c by (elim conjE) (intro conjI)
  from a r1 r2 r3 h4' r4 r5 r6 r7 r8 r9 k1' r10 d r11 show ?thesis
    by (elim conjE) (intro conjI)
qed

text \<open>
  Claim C3: every classifier should raise a named error on an unmatched input and never
  return \<^verbatim>\<open>None\<close>; in particular \<^verbatim>\<open>get_sample_charge\<close> should raise when the first
  \<open>-\<close>-separated token of the name is in no list of its sample table or of its charge
  table. On the code the stem below, whose token is in neither table, makes
  \<^verbatim>\<open>get_sample_charge\<close> return \<^verbatim>\<open>None\<close>, and
  \<^verbatim>\<open>ingest_aimm_ncm_gihyeok_sigscan\<close> then fails on it with a \<^verbatim>\<open>TypeError\<close> that its
  \<^verbatim>\<open>except KeyError\<close> lets through.
\<close>

theorem get_sample_charge_unmatched_returns_None:
  "capitalize (split_dash_first ''sigscan70000-0001'') = ''Sigscan70000'' \<and>
   first_key file_to_sample_map ''Sigscan70000'' = None \<and>
   first_key file_to_charge_map ''Sigscan70000'' = None \<and>
   get_sample_charge ''sigscan70000-0001'' = None \<and>
   sigscan_parse_filename ''sigscan70000-0001'' = Inl TypeError"
  by (simp add: sigscan_parse_filename_def get_sample_charge_def Let_def split_dash_first_def
      upper_def lower_def file_to_sample_map_def file_to_charge_map_def)

end
